theory Spec2Isabelle
  imports Complex_Main "HOL-Library.Multiset" "HOL-Library.Product_Lexorder"
begin

section \<open>Gmail watch renewal: the Watch Scanner and the Renewal Worker\<close>

text \<open>
  Two Python functions are embedded: \<^verbatim>\<open>watch-query-function/main.py\<close> (the Scanner) and
  \<^verbatim>\<open>renewal-worker-function/main.py\<close> (the Worker). Each source function becomes a HOL
  function of the same name that takes the state of the outside world it can change
  (the two tables, the queue, the calls made to the mail provider, the log) and returns
  it updated, next to its result. A raised exception is the value \<open>Inl e\<close>.

  What the libraries decide (whether a connection opens, what the provider answers,
  how \<^verbatim>\<open>int()\<close> reads a string, how a datetime prints) is not code of this repository:
  it is the record \<open>world\<close>, a parameter of every function, and the theorems hold for
  every world.
\<close>

subsection \<open>Values\<close>

text \<open>
  JSON values, as \<^verbatim>\<open>json.loads\<close> builds them and \<^verbatim>\<open>json.dumps\<close> prints them. Python's
  \<^verbatim>\<open>None\<close> is \<open>JNull\<close>. An object is the list of its items; a dict has each key once.
  Floats are left out of the JSON values: the one float of the code, the quotient of
  line 147 of the Worker, is modelled with \<open>fromtimestamp\<close> below.
\<close>

datatype json =
    JNull
  | JBool bool
  | JNum int
  | JStr string
  | JArr "json list"
  | JObj "(string \<times> json) list"

text \<open>
  The exceptions, each with the text \<^verbatim>\<open>str(e)\<close> gives. All are subclasses of
  \<^verbatim>\<open>Exception\<close>. \<open>LibraryError\<close> stands for every other exception a library raises
  (a refused connection, an expired credential, a publish timeout).
\<close>

datatype exn =
    ValueError string
  | TypeError string
  | AttributeError string
  | KeyError string
  | HttpError string
  | LibraryError string

fun str_exn :: "exn \<Rightarrow> string" where
  "str_exn (ValueError m) = m"
| "str_exn (TypeError m) = m"
| "str_exn (AttributeError m) = m"
| "str_exn (KeyError m) = m"
| "str_exn (HttpError m) = m"
| "str_exn (LibraryError m) = m"

text \<open>
  A naive datetime (one without \<^verbatim>\<open>tzinfo\<close>, the only kind the code builds): the number of
  microseconds, the resolution of \<^verbatim>\<open>datetime\<close>, from 1970-01-01 00:00:00 to its wall-clock
  fields. For a datetime that shows UTC, as \<^verbatim>\<open>datetime.utcnow()\<close> does, this is the time since
  the epoch.
\<close>

type_synonym timestamp = int

datatype level = INFO | WARNING | ERROR

text \<open>
  One call of the logger: its level, the literal text of the f-string with \<open>{}\<close> for each
  interpolation, and the interpolated values in order (a datetime as its number of
  microseconds, an exception as the string \<^verbatim>\<open>str(e)\<close>).
\<close>

datatype log_entry = Log level string "json list"

subsection \<open>The store, the queue and the provider\<close>

text \<open>
  Table \<^verbatim>\<open>gmail_watches\<close>, read by the Scanner: the columns its SELECT names. A NULL
  \<^verbatim>\<open>is_active\<close> is \<open>False\<close> (it fails \<^verbatim>\<open>is_active = true\<close> alike).
\<close>

record gmail_watches_row =
  watches_user_id :: json
  watches_email :: json
  watches_watch_id :: json
  watches_expiration_time :: "timestamp option"
  watches_is_active :: bool

text \<open>Table \<^verbatim>\<open>gmail_mailbox_watches\<close>, updated by the Worker: the columns its UPDATE names.\<close>

record gmail_mailbox_watches_row =
  mailbox_account_id :: json
  mailbox_history_id :: json
  mailbox_watch_expiration :: "timestamp option"
  mailbox_is_active :: bool

text \<open>
  The arguments of \<^verbatim>\<open>Credentials(...)\<close>. The tokens are whatever JSON values the message
  holds; the client id and secret are what \<^verbatim>\<open>os.getenv\<close> returned.
\<close>

record credentials =
  cred_token :: json
  cred_refresh_token :: json
  cred_token_uri :: string
  cred_client_id :: "string option"
  cred_client_secret :: "string option"
  cred_scopes :: "string list"

text \<open>The dict \<^verbatim>\<open>watch_request\<close>; \<open>topicName\<close> is \<open>None\<close> when the key is not set.\<close>

record watch_request =
  labelIds :: "string list"
  labelFilterAction :: string
  topicName :: "string option"

text \<open>One call \<^verbatim>\<open>service.users().watch(userId=..., body=...).execute()\<close>.\<close>

record provider_call =
  call_credentials :: credentials
  call_userId :: string
  call_body :: watch_request

text \<open>
  Everything an invocation can change. \<open>published\<close> holds the messages whose publish was
  acknowledged, oldest first, each with its topic path. \<open>connections\<close>, \<open>closed\<close> and
  \<open>commits\<close> count the store connections opened and closed and the transactions committed.
  The tables hold committed rows only: an UPDATE that is not committed is discarded when
  its connection closes.
\<close>

record system =
  gmail_watches :: "gmail_watches_row list"
  gmail_mailbox_watches :: "gmail_mailbox_watches_row list"
  published :: "(string \<times> json) list"
  provider_calls :: "provider_call list"
  connections :: nat
  closed :: nat
  commits :: nat
  logs :: "log_entry list"

text \<open>
  What the libraries and the platform decide during one invocation.
  \<^item> \<open>environ\<close>: the process environment, read by \<^verbatim>\<open>os.getenv\<close>.
  \<^item> \<open>clock\<close>: the successive readings of \<^verbatim>\<open>datetime.utcnow()\<close>, numbered from 0.
  \<^item> \<open>isoformat\<close>: \<^verbatim>\<open>datetime.isoformat\<close>.
  \<^item> \<open>int_of_str\<close>: \<^verbatim>\<open>int(s)\<close> for a string, \<open>None\<close> where it raises ValueError.
  \<^item> \<open>fromtimestamp_error\<close>: the exception line 147 raises for a number of milliseconds
    (a quotient too large for a float, a year outside 1 to 9999, a failure of the
    platform's \<^verbatim>\<open>localtime\<close>), if any.
  \<^item> \<open>utc_offset\<close>: the offset of the local time of the process from UTC, in seconds, at
    an instant given in seconds since the epoch (\<^verbatim>\<open>tm_gmtoff\<close> of the platform's
    \<^verbatim>\<open>localtime\<close>). It is 0 everywhere when the process runs in UTC.
  \<^item> \<open>connect_error\<close>: the exception \<^verbatim>\<open>psycopg2.connect\<close> raises for the value of
    \<^verbatim>\<open>DATABASE_URL\<close> it is given, if any.
  \<^item> \<open>select_error\<close>, \<open>update_error\<close>, \<open>commit_error\<close>: the exception the SELECT, the
    UPDATE and \<^verbatim>\<open>conn.commit()\<close> raise, if any.
  \<^item> \<open>publisher_error\<close>: the exception \<^verbatim>\<open>PublisherClient()\<close> raises, if any.
  \<^item> \<open>publish_outcome\<close>: for the publish number \<open>k\<close> (from 0) of a message on a topic,
    the message id \<^verbatim>\<open>future.result()\<close> returns, or the exception \<^verbatim>\<open>publish\<close> or
    \<^verbatim>\<open>future.result()\<close> raises.
  \<^item> \<open>build_error\<close>: the exception \<^verbatim>\<open>build('gmail', 'v1', ...)\<close> raises, if any.
  \<^item> \<open>watch_outcome\<close>: what \<^verbatim>\<open>execute()\<close> returns for a call, or the exception it raises.
\<close>

record world =
  environ :: "string \<Rightarrow> string option"
  clock :: "nat \<Rightarrow> timestamp"
  isoformat :: "timestamp \<Rightarrow> string"
  int_of_str :: "string \<Rightarrow> int option"
  fromtimestamp_error :: "int \<Rightarrow> exn option"
  utc_offset :: "int \<Rightarrow> int"
  connect_error :: "string option \<Rightarrow> exn option"
  select_error :: "exn option"
  update_error :: "exn option"
  commit_error :: "exn option"
  publisher_error :: "exn option"
  publish_outcome :: "nat \<Rightarrow> string \<Rightarrow> json \<Rightarrow> exn + string"
  build_error :: "exn option"
  watch_outcome :: "provider_call \<Rightarrow> exn + json"

subsection \<open>Python primitives\<close>

definition logger :: "level \<Rightarrow> string \<Rightarrow> json list \<Rightarrow> system \<Rightarrow> system" where
  "logger lvl msg args s = s\<lparr>logs := logs s @ [Log lvl msg args]\<rparr>"

definition getenv :: "world \<Rightarrow> string \<Rightarrow> string option" where
  "getenv w name = environ w name"

text \<open>Truth value of what \<^verbatim>\<open>os.getenv\<close> returns: \<^verbatim>\<open>None\<close> and the empty string are false.\<close>

fun truthy :: "string option \<Rightarrow> bool" where
  "truthy None = False"
| "truthy (Some v) = (v \<noteq> [])"

text \<open>An environment value inside an f-string: \<^verbatim>\<open>None\<close> prints as \<^verbatim>\<open>None\<close>.\<close>

fun fmt :: "string option \<Rightarrow> string" where
  "fmt None = ''None''"
| "fmt (Some v) = v"

text \<open>\<^verbatim>\<open>d.get(key)\<close> on a dict, and on any JSON value: only a dict has the method.\<close>

definition dict_get :: "(string \<times> json) list \<Rightarrow> string \<Rightarrow> json" where
  "dict_get d key = (case map_of d key of None \<Rightarrow> JNull | Some v \<Rightarrow> v)"

fun py_get :: "json \<Rightarrow> string \<Rightarrow> exn + json" where
  "py_get (JObj d) key = Inr (dict_get d key)"
| "py_get _ key = Inl (AttributeError ''object has no attribute get'')"

text \<open>\<^verbatim>\<open>d[key]\<close> on a dict: KeyError when the key is absent.\<close>

definition subscript :: "(string \<times> json) list \<Rightarrow> string \<Rightarrow> exn + json" where
  "subscript d key = (case map_of d key of None \<Rightarrow> Inl (KeyError key) | Some v \<Rightarrow> Inr v)"

text \<open>\<^verbatim>\<open>int(x)\<close>.\<close>

fun py_int :: "world \<Rightarrow> json \<Rightarrow> exn + int" where
  "py_int w (JNum n) = Inr n"
| "py_int w (JBool b) = Inr (if b then 1 else 0)"
| "py_int w (JStr v) =
     (case int_of_str w v of
        None \<Rightarrow> Inl (ValueError ''invalid literal for int() with base 10'')
      | Some n \<Rightarrow> Inr n)"
| "py_int w _ = Inl (TypeError ''int() argument must be a string, a bytes-like object or a real number'')"

text \<open>
  Line 147 of the Worker is \<^verbatim>\<open>datetime.fromtimestamp(int(expiration_ms) / 1000)\<close>. The
  quotient is a float, an IEEE double. A finite double is a rational number, and
  \<open>double x\<close> is the double nearest to the rational \<open>x\<close>: \<open>x\<close> is written as a multiple of
  \<open>2 powi (e - 52)\<close>, where \<open>2 powi e \<le> \<bar>x\<bar> < 2 powi (e + 1)\<close>, and the multiple is rounded
  to the nearest integer, a tie to the even one (53 significant bits). The exponent is
  not bounded here: a quotient beyond the largest double raises in Python, which is a
  case of \<open>fromtimestamp_error\<close>, and no quotient of an integer by 1000 is subnormal.
\<close>

definition round_half_even :: "rat \<Rightarrow> int" where
  "round_half_even x =
     (let f = \<lfloor>x\<rfloor>; r = x - of_int f
      in if r < 1 / 2 then f
         else if 1 / 2 < r then f + 1
         else if even f then f else f + 1)"

text \<open>The integer logarithms to base 2, rounded down and up, of an integer from 1.\<close>

function floor_log2 :: "int \<Rightarrow> int" where
  "floor_log2 n = (if n < 2 then 0 else 1 + floor_log2 (n div 2))"
  by pat_completeness auto
termination
  by (relation "measure nat") auto

function ceil_log2 :: "int \<Rightarrow> int" where
  "ceil_log2 n = (if n < 2 then 0 else 1 + ceil_log2 ((n + 1) div 2))"
  by pat_completeness auto
termination
  by (relation "measure nat") auto

declare floor_log2.simps [simp del] ceil_log2.simps [simp del]

text \<open>The binary exponent of a positive rational: \<open>2 powi exponent x \<le> x < 2 powi (exponent x + 1)\<close>.\<close>

definition exponent :: "rat \<Rightarrow> int" where
  "exponent x = (if 1 \<le> x then floor_log2 \<lfloor>x\<rfloor> else - ceil_log2 \<lceil>1 / x\<rceil>)"

definition double :: "rat \<Rightarrow> rat" where
  "double x =
     (if x = 0 then 0
      else let ulp = 2 powi (exponent \<bar>x\<bar> - 52)
           in of_int (round_half_even (x / ulp)) * ulp)"

text \<open>\<^verbatim>\<open>a / b\<close> on two ints, \<open>b\<close> not 0: the double nearest to the quotient.\<close>

definition float_div :: "int \<Rightarrow> int \<Rightarrow> rat" where
  "float_div a b = double (of_int a / of_int b)"

text \<open>Rounding towards zero: the integer part \<^verbatim>\<open>modf\<close> gives.\<close>

definition trunc :: "rat \<Rightarrow> int" where
  "trunc x = (if 0 \<le> x then \<lfloor>x\<rfloor> else \<lceil>x\<rceil>)"

text \<open>
  How \<^verbatim>\<open>datetime.fromtimestamp\<close> reads a float \<open>d\<close> as seconds and microseconds (CPython,
  \<^verbatim>\<open>_PyTime_ObjectToTimeval\<close> with \<^verbatim>\<open>ROUND_HALF_EVEN\<close>): \<^verbatim>\<open>modf\<close> splits \<open>d\<close> into its integer
  part and its fraction, exactly; the fraction is multiplied by \<^verbatim>\<open>1e6\<close>, a float product,
  and rounded to an integer, a tie to the even one; a result of a million or more, or
  below zero, is carried into the seconds.
\<close>

definition to_timeval :: "rat \<Rightarrow> int \<times> int" where
  "to_timeval d =
     (let intpart = trunc d;
          floatpart = round_half_even (double ((d - of_int intpart) * 1000000))
      in if 1000000 \<le> floatpart then (intpart + 1, floatpart - 1000000)
         else if floatpart < 0 then (intpart - 1, floatpart + 1000000)
         else (intpart, floatpart))"

text \<open>
  \<^verbatim>\<open>datetime.fromtimestamp(d)\<close> with no \<^verbatim>\<open>tz\<close>: the platform's \<^verbatim>\<open>localtime\<close> breaks the
  seconds down in the time zone of the process, and the result is the naive datetime with
  these fields and the microseconds. Its wall-clock reading is \<open>utc_offset\<close> seconds ahead
  of UTC.
\<close>

definition fromtimestamp :: "world \<Rightarrow> rat \<Rightarrow> timestamp" where
  "fromtimestamp w d =
     (case to_timeval d of
        (timet, us) \<Rightarrow> (timet + utc_offset w timet) * 1000000 + us)"

text \<open>Line 147 for the integer \<open>ms\<close> that \<^verbatim>\<open>int(expiration_ms)\<close> returned.\<close>

definition fromtimestamp_ms :: "world \<Rightarrow> int \<Rightarrow> exn + timestamp" where
  "fromtimestamp_ms w ms =
     (case fromtimestamp_error w ms of
        Some e \<Rightarrow> Inl e
      | None \<Rightarrow> Inr (fromtimestamp w (float_div ms 1000)))"

text \<open>\<^verbatim>\<open>timedelta(hours=h)\<close>, in microseconds.\<close>

definition timedelta_hours :: "int \<Rightarrow> int" where
  "timedelta_hours h = h * 3600000000"

text \<open>\<^verbatim>\<open>str(n)\<close> for a count.\<close>

definition digit :: "nat \<Rightarrow> char" where
  "digit n = ''0123456789'' ! n"

fun str_nat :: "nat \<Rightarrow> string" where
  "str_nat n = (if n < 10 then [digit n] else str_nat (n div 10) @ [digit (n mod 10)])"

declare str_nat.simps [simp del]

subsection \<open>The Renewal Worker\<close>

text \<open>
  What \<^verbatim>\<open>renew_gmail_watch\<close> returns: \<^verbatim>\<open>{'success': True, 'history_id': h, 'expiration': x}\<close>
  or \<^verbatim>\<open>{'success': False, 'error': msg}\<close>.
\<close>

datatype renewal_result = Renewed json json | NotRenewed string

text \<open>The credential object of lines 83 to 93.\<close>

definition gmail_credentials :: "world \<Rightarrow> json \<Rightarrow> json \<Rightarrow> credentials" where
  "gmail_credentials w access_token refresh_token =
     \<lparr>cred_token = access_token,
      cred_refresh_token = refresh_token,
      cred_token_uri = ''https://oauth2.googleapis.com/token'',
      cred_client_id = getenv w ''GOOGLE_CLIENT_ID'',
      cred_client_secret = getenv w ''GOOGLE_CLIENT_SECRET'',
      cred_scopes = [''https://www.googleapis.com/auth/gmail.readonly'',
                     ''https://www.googleapis.com/auth/gmail.send'']\<rparr>"

text \<open>The request of lines 98 to 106: the topic is added only when one is configured.\<close>

definition topic_name :: "world \<Rightarrow> string" where
  "topic_name w =
     ''projects/'' @ fmt (getenv w ''GCP_PROJECT_ID'') @ ''/topics/''
       @ fmt (getenv w ''GCP_PUB_SUB_EMAIL_REPLY_TOPIC_ID'')"

definition gmail_watch_request :: "world \<Rightarrow> watch_request" where
  "gmail_watch_request w =
     \<lparr>labelIds = [''INBOX''],
      labelFilterAction = ''include'',
      topicName = (if truthy (getenv w ''GCP_PUB_SUB_EMAIL_REPLY_TOPIC_ID'')
                   then Some (topic_name w) else None)\<rparr>"

text \<open>The call of line 112.\<close>

definition gmail_watch_call :: "world \<Rightarrow> json \<Rightarrow> json \<Rightarrow> provider_call" where
  "gmail_watch_call w access_token refresh_token =
     \<lparr>call_credentials = gmail_credentials w access_token refresh_token,
      call_userId = ''me'',
      call_body = gmail_watch_request w\<rparr>"

text \<open>The body of the \<^verbatim>\<open>try\<close> of \<^verbatim>\<open>renew_gmail_watch\<close> (lines 72 to 120).\<close>

definition renew_gmail_watch_try ::
  "world \<Rightarrow> json \<Rightarrow> json \<Rightarrow> system \<Rightarrow> (exn + renewal_result) \<times> system" where
  "renew_gmail_watch_try w access_token refresh_token s =
     (if \<not> (truthy (getenv w ''GCP_PROJECT_ID'') \<and> truthy (getenv w ''GOOGLE_CLIENT_ID'')
             \<and> truthy (getenv w ''GOOGLE_CLIENT_SECRET''))
      then (Inl (ValueError ''Missing required environment variables''), s)
      else
        (case build_error w of
           Some e \<Rightarrow> (Inl e, s)
         | None \<Rightarrow>
             (let s1 = (if truthy (getenv w ''GCP_PUB_SUB_EMAIL_REPLY_TOPIC_ID'')
                        then logger INFO ''Setting up Gmail watch with topic: {}''
                               [JStr (topic_name w)] s
                        else logger INFO
                               ''Setting up Gmail watch without topic (expiration monitoring only)''
                               [] s);
                  call = gmail_watch_call w access_token refresh_token;
                  s2 = s1\<lparr>provider_calls := provider_calls s1 @ [call]\<rparr>
              in case watch_outcome w call of
                   Inl e \<Rightarrow> (Inl e, s2)
                 | Inr result \<Rightarrow>
                     (let s3 = logger INFO ''Gmail watch renewal successful: {}'' [result] s2
                      in case py_get result ''historyId'' of
                           Inl e \<Rightarrow> (Inl e, s3)
                         | Inr h \<Rightarrow>
                             (case py_get result ''expiration'' of
                                Inl e \<Rightarrow> (Inl e, s3)
                              | Inr x \<Rightarrow> (Inr (Renewed h x), s3))))))"

text \<open>\<^verbatim>\<open>renew_gmail_watch\<close>: the two handlers (lines 122 to 133) turn every exception into a result.\<close>

definition renew_gmail_watch :: "world \<Rightarrow> json \<Rightarrow> json \<Rightarrow> system \<Rightarrow> renewal_result \<times> system" where
  "renew_gmail_watch w access_token refresh_token s =
     (case renew_gmail_watch_try w access_token refresh_token s of
        (Inr r, s') \<Rightarrow> (r, s')
      | (Inl (HttpError m), s') \<Rightarrow>
          (NotRenewed (''Gmail API error: '' @ m),
           logger ERROR ''Gmail API error during renewal: {}'' [JStr m] s')
      | (Inl e, s') \<Rightarrow>
          (NotRenewed (''Failed to renew Gmail watch: '' @ str_exn e),
           logger ERROR ''Failed to renew Gmail watch: {}'' [JStr (str_exn e)] s'))"

text \<open>
  The UPDATE of \<^verbatim>\<open>update_watch_in_database\<close>. In SQL, \<open>=\<close> is not true when either side is
  NULL, so a NULL parameter or column matches nothing.
\<close>

definition sql_eq :: "json \<Rightarrow> json \<Rightarrow> bool" where
  "sql_eq a b = (a \<noteq> JNull \<and> b \<noteq> JNull \<and> a = b)"

definition update_where :: "json \<Rightarrow> gmail_mailbox_watches_row \<Rightarrow> bool" where
  "update_where account_id r = (sql_eq (mailbox_account_id r) account_id \<and> mailbox_is_active r)"

definition sql_update ::
  "json \<Rightarrow> timestamp \<Rightarrow> json \<Rightarrow> gmail_mailbox_watches_row list \<Rightarrow> gmail_mailbox_watches_row list" where
  "sql_update history_id expiration_dt account_id rows =
     map (\<lambda>r. if update_where account_id r
              then r\<lparr>mailbox_history_id := history_id,
                     mailbox_watch_expiration := Some expiration_dt\<rparr>
              else r) rows"

definition rowcount :: "json \<Rightarrow> gmail_mailbox_watches_row list \<Rightarrow> nat" where
  "rowcount account_id rows = length (filter (update_where account_id) rows)"

text \<open>Lines 146 to 165 of \<^verbatim>\<open>update_watch_in_database\<close>: what runs once \<^verbatim>\<open>conn\<close> is assigned.\<close>

definition update_with_connection ::
  "world \<Rightarrow> json \<Rightarrow> json \<Rightarrow> json \<Rightarrow> system \<Rightarrow> (exn + unit) \<times> system" where
  "update_with_connection w account_id history_id expiration_ms s =
     (case py_int w expiration_ms of
        Inl e \<Rightarrow> (Inl e, s)
      | Inr ms \<Rightarrow>
          (case fromtimestamp_ms w ms of
             Inl e \<Rightarrow> (Inl e, s)
           | Inr expiration_dt \<Rightarrow>
               (case update_error w of
                  Some e \<Rightarrow> (Inl e, s)
                | None \<Rightarrow>
                    if rowcount account_id (gmail_mailbox_watches s) > 0
                    then (case commit_error w of
                            Some e \<Rightarrow> (Inl e, s)
                          | None \<Rightarrow>
                              (Inr (),
                               logger INFO
                                 ''Updated Gmail watch in database: account_id={}, history_id={}, expiration={}''
                                 [account_id, history_id, JNum expiration_dt]
                                 (s\<lparr>gmail_mailbox_watches :=
                                       sql_update history_id expiration_dt account_id
                                         (gmail_mailbox_watches s),
                                     commits := commits s + 1\<rparr>)))
                    else (Inr (),
                          logger WARNING ''No active Gmail watch found for account_id={}''
                            [account_id] s))))"

text \<open>
  \<^verbatim>\<open>update_watch_in_database\<close>: the handler logs and raises again; the \<^verbatim>\<open>finally\<close> closes the
  connection when \<^verbatim>\<open>conn\<close> was assigned.
\<close>

definition update_watch_in_database ::
  "world \<Rightarrow> json \<Rightarrow> json \<Rightarrow> json \<Rightarrow> system \<Rightarrow> (exn + unit) \<times> system" where
  "update_watch_in_database w account_id history_id expiration_ms s =
     (let database_url = getenv w ''DATABASE_URL''
      in if \<not> truthy database_url
         then (let e = ValueError ''Missing DATABASE_URL environment variable''
               in (Inl e, logger ERROR ''Failed to update watch in database: {}'' [JStr (str_exn e)] s))
         else
           (case connect_error w database_url of
              Some e \<Rightarrow>
                (Inl e, logger ERROR ''Failed to update watch in database: {}'' [JStr (str_exn e)] s)
            | None \<Rightarrow>
                (case update_with_connection w account_id history_id expiration_ms
                        (s\<lparr>connections := connections s + 1\<rparr>) of
                   (Inl e, s') \<Rightarrow>
                     (Inl e,
                      (logger ERROR ''Failed to update watch in database: {}'' [JStr (str_exn e)] s')
                        \<lparr>closed := closed s' + 1\<rparr>)
                 | (Inr u, s') \<Rightarrow> (Inr u, s'\<lparr>closed := closed s' + 1\<rparr>))))"

text \<open>
  The value under \<^verbatim>\<open>'data'\<close> of a Pub/Sub event, by what
  \<^verbatim>\<open>json.loads(base64.b64decode(v).decode('utf-8'))\<close> makes of it: \<open>Encodes j\<close> is the base64
  of the UTF-8 JSON text of \<open>j\<close>; \<open>Undecodable e\<close> is any other value, \<open>e\<close> the exception the
  decoding raises. The event is a dict.
\<close>

datatype pubsub_data = Encodes json | Undecodable exn

definition required_fields :: "string list" where
  "required_fields = [''account_id'', ''user_id'', ''email'', ''access_token'', ''refresh_token'']"

text \<open>The validation loop (lines 38 to 40): the first required field that is not a key.\<close>

fun missing_field :: "(string \<times> json) list \<Rightarrow> string list \<Rightarrow> string option" where
  "missing_field d [] = None"
| "missing_field d (field # rest) =
     (if map_of d field = None then Some field else missing_field d rest)"

text \<open>Lines 42 to 60: the renewal and the update, for a request that passed the validation.\<close>

definition renew_and_update :: "world \<Rightarrow> (string \<times> json) list \<Rightarrow> system \<Rightarrow> (exn + unit) \<times> system" where
  "renew_and_update w renewal_request s =
     (case subscript renewal_request ''access_token'' of
        Inl e \<Rightarrow> (Inl e, s)
      | Inr access_token \<Rightarrow>
     (case subscript renewal_request ''refresh_token'' of
        Inl e \<Rightarrow> (Inl e, s)
      | Inr refresh_token \<Rightarrow>
     (case renew_gmail_watch w access_token refresh_token s of
        (Renewed history_id expiration, s1) \<Rightarrow>
          (case subscript renewal_request ''account_id'' of
             Inl e \<Rightarrow> (Inl e, s1)
           | Inr account_id \<Rightarrow>
               (case update_watch_in_database w account_id history_id expiration s1 of
                  (Inl e, s2) \<Rightarrow> (Inl e, s2)
                | (Inr u, s2) \<Rightarrow>
                    (case subscript renewal_request ''user_id'' of
                       Inl e \<Rightarrow> (Inl e, s2)
                     | Inr user \<Rightarrow>
                         (Inr (),
                          logger INFO ''Successfully renewed Gmail watch for user {}'' [user] s2))))
      | (NotRenewed error, s1) \<Rightarrow>
          (case subscript renewal_request ''user_id'' of
             Inl e \<Rightarrow> (Inl e, s1)
           | Inr user \<Rightarrow>
               (Inr (),
                logger ERROR ''Failed to renew Gmail watch for user {}: {}'' [user, JStr error] s1)))))"

text \<open>
  The body of the \<^verbatim>\<open>try\<close> of \<^verbatim>\<open>renewal_worker_function\<close> (lines 26 to 60). A decoded
  message that is not a dict has no \<^verbatim>\<open>get\<close>: line 34 raises AttributeError on it.
\<close>

definition renewal_worker_function_try ::
  "world \<Rightarrow> (string \<Rightarrow> pubsub_data option) \<Rightarrow> system \<Rightarrow> (exn + unit) \<times> system" where
  "renewal_worker_function_try w event s =
     (case event ''data'' of
        None \<Rightarrow> (Inr (), logger ERROR ''No data in Pub/Sub message'' [] s)
      | Some (Undecodable e) \<Rightarrow> (Inl e, s)
      | Some (Encodes (JObj renewal_request)) \<Rightarrow>
          (let s1 = logger INFO ''Processing Gmail watch renewal for user {} ({})''
                      [dict_get renewal_request ''user_id'', dict_get renewal_request ''email''] s
           in case missing_field renewal_request required_fields of
                Some field \<Rightarrow> (Inl (ValueError (''Missing required field: '' @ field)), s1)
              | None \<Rightarrow> renew_and_update w renewal_request s1)
      | Some (Encodes other) \<Rightarrow> (Inl (AttributeError ''object has no attribute get''), s))"

text \<open>
  \<^verbatim>\<open>renewal_worker_function(event, context)\<close>; \<^verbatim>\<open>context\<close> is not used. The handler of line 62
  catches every \<^verbatim>\<open>Exception\<close>, logs it and returns.
\<close>

definition renewal_worker_function ::
  "world \<Rightarrow> (string \<Rightarrow> pubsub_data option) \<Rightarrow> system \<Rightarrow> (exn + unit) \<times> system" where
  "renewal_worker_function w event s =
     (case renewal_worker_function_try w event s of
        (Inr u, s') \<Rightarrow> (Inr u, s')
      | (Inl e, s') \<Rightarrow>
          (Inr (), logger ERROR ''Renewal worker function failed: {}'' [JStr (str_exn e)] s'))"

subsection \<open>The Watch Scanner\<close>

text \<open>
  The SELECT of \<^verbatim>\<open>get_expiring_watches\<close>. A NULL \<^verbatim>\<open>expiration_time\<close> fails the comparison
  with the threshold. \<^verbatim>\<open>ORDER BY expiration_time ASC\<close> puts NULLs last; among equal
  expirations SQL promises no order, and the model keeps the table's.
\<close>

definition select_where :: "timestamp \<Rightarrow> gmail_watches_row \<Rightarrow> bool" where
  "select_where expiration_threshold r =
     ((case watches_expiration_time r of None \<Rightarrow> False | Some t \<Rightarrow> t \<le> expiration_threshold)
      \<and> watches_is_active r)"

definition order_by :: "gmail_watches_row \<Rightarrow> bool \<times> timestamp" where
  "order_by r = (case watches_expiration_time r of None \<Rightarrow> (True, 0) | Some t \<Rightarrow> (False, t))"

definition selected_rows :: "timestamp \<Rightarrow> gmail_watches_row list \<Rightarrow> gmail_watches_row list" where
  "selected_rows expiration_threshold rows =
     sort_key order_by (filter (select_where expiration_threshold) rows)"

text \<open>What \<^verbatim>\<open>cursor.fetchall()\<close> returns: the four selected columns of each selected row.\<close>

definition fetchall ::
  "timestamp \<Rightarrow> gmail_watches_row list \<Rightarrow> (json \<times> json \<times> json \<times> timestamp option) list" where
  "fetchall expiration_threshold rows =
     map (\<lambda>r. (watches_user_id r, watches_email r, watches_watch_id r, watches_expiration_time r))
       (selected_rows expiration_threshold rows)"

text \<open>The dict built for each fetched row (lines 108 to 113).\<close>

record watch =
  user_id :: json
  email :: json
  watch_id :: json
  expiration_time :: json

fun watch_dict :: "world \<Rightarrow> json \<times> json \<times> json \<times> timestamp option \<Rightarrow> watch" where
  "watch_dict w (w0, w1, w2, w3) =
     \<lparr>user_id = w0, email = w1, watch_id = w2,
      expiration_time = (case w3 of Some t \<Rightarrow> JStr (isoformat w t) | None \<Rightarrow> JNull)\<rparr>"

text \<open>
  \<^verbatim>\<open>get_expiring_watches(database_url, hours_ahead=2)\<close>. The connection is closed on the
  normal path only.
\<close>

definition get_expiring_watches ::
  "world \<Rightarrow> string option \<Rightarrow> int \<Rightarrow> system \<Rightarrow> (exn + watch list) \<times> system" where
  "get_expiring_watches w database_url hours_ahead s =
     (let expiration_threshold = clock w 0 + timedelta_hours hours_ahead
      in case connect_error w database_url of
           Some e \<Rightarrow> (Inl e, logger ERROR ''Database query error: {}'' [JStr (str_exn e)] s)
         | None \<Rightarrow>
             (let s1 = s\<lparr>connections := connections s + 1\<rparr>
              in case select_error w of
                   Some e \<Rightarrow> (Inl e, logger ERROR ''Database query error: {}'' [JStr (str_exn e)] s1)
                 | None \<Rightarrow>
                     (let watches = fetchall expiration_threshold (gmail_watches s1);
                          watch_list = map (watch_dict w) watches;
                          s2 = s1\<lparr>closed := closed s1 + 1\<rparr>
                      in (Inr watch_list,
                          logger INFO ''Found {} expiring watches''
                            [JNum (int (length watch_list))] s2))))"

text \<open>The default of \<^verbatim>\<open>hours_ahead\<close>.\<close>

definition hours_ahead_default :: int where
  "hours_ahead_default = 2"

text \<open>
  The loop of \<^verbatim>\<open>publish_renewal_messages\<close> (lines 143 to 161), with the count so far. The
  message is the dict \<^verbatim>\<open>message_data\<close>; the queue carries its JSON text.
\<close>

fun publish_loop ::
  "world \<Rightarrow> string \<Rightarrow> watch list \<Rightarrow> nat \<Rightarrow> system \<Rightarrow> (exn + nat) \<times> system" where
  "publish_loop w topic_path [] published_count s = (Inr published_count, s)"
| "publish_loop w topic_path (watch # watches) published_count s =
     (let message_data =
            JObj [(''user_id'', user_id watch),
                  (''email'', email watch),
                  (''watch_id'', watch_id watch),
                  (''action'', JStr ''renew_watch''),
                  (''timestamp'', JStr (isoformat w (clock w (Suc published_count))))]
      in case publish_outcome w published_count topic_path message_data of
           Inl e \<Rightarrow> (Inl e, s)
         | Inr message_id \<Rightarrow>
             publish_loop w topic_path watches (published_count + 1)
               (logger INFO ''Published renewal message {} for user {}''
                  [JStr message_id, user_id watch]
                  (s\<lparr>published := published s @ [(topic_path, message_data)]\<rparr>)))"

text \<open>\<^verbatim>\<open>publisher.topic_path(project_id, topic_id)\<close>.\<close>

definition publisher_topic_path :: "string option \<Rightarrow> string option \<Rightarrow> string" where
  "publisher_topic_path project_id topic_id =
     ''projects/'' @ fmt project_id @ ''/topics/'' @ fmt topic_id"

definition publish_renewal_messages ::
  "world \<Rightarrow> string option \<Rightarrow> string option \<Rightarrow> watch list \<Rightarrow> system \<Rightarrow> (exn + nat) \<times> system" where
  "publish_renewal_messages w project_id topic_id watches s =
     (case publisher_error w of
        Some e \<Rightarrow> (Inl e, logger ERROR ''Pub/Sub publish error: {}'' [JStr (str_exn e)] s)
      | None \<Rightarrow>
          (let topic_path = publisher_topic_path project_id topic_id
           in case publish_loop w topic_path watches 0 s of
                (Inl e, s') \<Rightarrow>
                  (Inl e, logger ERROR ''Pub/Sub publish error: {}'' [JStr (str_exn e)] s')
              | (Inr published_count, s') \<Rightarrow> (Inr published_count, s')))"

text \<open>
  The dict the Scanner returns. \<open>body\<close> is the value given to \<^verbatim>\<open>json.dumps\<close>; the response
  carries its JSON text.
\<close>

record response =
  statusCode :: int
  body :: json

text \<open>The two shapes of the response: lines 41 to 48 and 55 to 62, and lines 66 to 72.\<close>

definition success_response :: "string \<Rightarrow> int \<Rightarrow> response" where
  "success_response message watches_processed =
     \<lparr>statusCode = 200,
      body = JObj [(''success'', JBool True),
                   (''message'', JStr message),
                   (''watches_processed'', JNum watches_processed)]\<rparr>"

definition failure_response :: "string \<Rightarrow> response" where
  "failure_response error =
     \<lparr>statusCode = 500,
      body = JObj [(''success'', JBool False), (''error'', JStr error)]\<rparr>"

text \<open>The body of the \<^verbatim>\<open>try\<close> of \<^verbatim>\<open>watch_query_function\<close> (lines 26 to 62).\<close>

definition watch_query_function_try :: "world \<Rightarrow> system \<Rightarrow> (exn + response) \<times> system" where
  "watch_query_function_try w s =
     (let s0 = logger INFO ''Gmail watch query function triggered by Cloud Scheduler'' [] s;
          project_id = getenv w ''GCP_PROJECT_ID'';
          topic_id = getenv w ''GCP_PUB_SUB_GMAIL_WATCH_RENEWAL_TOPIC_ID'';
          database_url = getenv w ''DATABASE_URL''
      in if \<not> (truthy project_id \<and> truthy topic_id \<and> truthy database_url)
         then (Inl (ValueError ''Missing required environment variables''), s0)
         else
           (case get_expiring_watches w database_url hours_ahead_default s0 of
              (Inl e, s1) \<Rightarrow> (Inl e, s1)
            | (Inr expiring_watches, s1) \<Rightarrow>
                if expiring_watches = []
                then (Inr (success_response ''No expiring watches found'' 0),
                      logger INFO ''No expiring Gmail watches found'' [] s1)
                else
                  (case publish_renewal_messages w project_id topic_id expiring_watches s1 of
                     (Inl e, s2) \<Rightarrow> (Inl e, s2)
                   | (Inr published_count, s2) \<Rightarrow>
                       (Inr (success_response
                               (''Published '' @ str_nat published_count @ '' renewal messages'')
                               (int published_count)),
                        logger INFO ''Published {} renewal messages''
                          [JNum (int published_count)] s2))))"

text \<open>
  \<^verbatim>\<open>watch_query_function(request)\<close>; \<^verbatim>\<open>request\<close> is not used. The handler of line 64 catches
  every \<^verbatim>\<open>Exception\<close> and answers 500.
\<close>

definition watch_query_function :: "world \<Rightarrow> system \<Rightarrow> (exn + response) \<times> system" where
  "watch_query_function w s =
     (case watch_query_function_try w s of
        (Inr r, s') \<Rightarrow> (Inr r, s')
      | (Inl e, s') \<Rightarrow>
          (Inr (failure_response (str_exn e)),
           logger ERROR ''Error in watch query function: {}'' [JStr (str_exn e)] s'))"

text \<open>
  For stating what an invocation of the Scanner does: the condition of line 33, the rows its
  query selects, and the value of a key of a response body.
\<close>

definition scanner_configured :: "world \<Rightarrow> bool" where
  "scanner_configured w =
     (truthy (getenv w ''GCP_PROJECT_ID'')
      \<and> truthy (getenv w ''GCP_PUB_SUB_GMAIL_WATCH_RENEWAL_TOPIC_ID'')
      \<and> truthy (getenv w ''DATABASE_URL''))"

definition eligible :: "world \<Rightarrow> system \<Rightarrow> gmail_watches_row list" where
  "eligible w s =
     selected_rows (clock w 0 + timedelta_hours hours_ahead_default) (gmail_watches s)"


text \<open>
  The event the Pub/Sub trigger hands to the Worker for a published message: the published
  bytes, base64-encoded, under \<^verbatim>\<open>'data'\<close>.
\<close>

definition deliver :: "json \<Rightarrow> string \<Rightarrow> pubsub_data option" where
  "deliver message = [''data'' \<mapsto> Encodes message]"

subsection \<open>States that differ in the log only\<close>

text \<open>Two states have the same effects when they agree on everything but the log.\<close>

definition same_effects :: "system \<Rightarrow> system \<Rightarrow> bool" where
  "same_effects s t =
     (gmail_watches s = gmail_watches t
      \<and> gmail_mailbox_watches s = gmail_mailbox_watches t
      \<and> published s = published t
      \<and> provider_calls s = provider_calls t
      \<and> connections s = connections t
      \<and> closed s = closed t
      \<and> commits s = commits t)"

subsection \<open>A concrete world and store\<close>

text \<open>
  The scenario of the specification: the time is \<open>now\<close>; the Scanner's table holds one
  active watch of user U1 that expires in 30 minutes, the Worker's table one active row of
  account A1; every variable of the configuration is set, every library call succeeds, and
  the provider answers with history id 999 and an expiration 7 days ahead, in milliseconds.
\<close>

definition now :: timestamp where
  "now = 1700000000000000"

text \<open>\<^verbatim>\<open>int(s)\<close> on a string of ASCII digits, the only strings the examples convert.\<close>

fun decimal_acc :: "string \<Rightarrow> int \<Rightarrow> int option" where
  "decimal_acc [] n = Some n"
| "decimal_acc (c # cs) n =
     (if 48 \<le> (of_char c :: int) \<and> (of_char c :: int) \<le> 57
      then decimal_acc cs (10 * n + (of_char c - 48))
      else None)"

definition decimal :: "string \<Rightarrow> int option" where
  "decimal v = (if v = [] then None else decimal_acc v 0)"

definition example_environ :: "string \<Rightarrow> string option" where
  "example_environ =
     [''GCP_PROJECT_ID'' \<mapsto> ''project'',
      ''GCP_PUB_SUB_GMAIL_WATCH_RENEWAL_TOPIC_ID'' \<mapsto> ''gmail-watch-renewal'',
      ''GOOGLE_CLIENT_ID'' \<mapsto> ''client'',
      ''GOOGLE_CLIENT_SECRET'' \<mapsto> ''secret'',
      ''DATABASE_URL'' \<mapsto> ''postgresql://store'']"

definition example_response :: json where
  "example_response = JObj [(''historyId'', JStr ''999''), (''expiration'', JStr ''1700604800000'')]"

definition example_world :: world where
  "example_world =
     \<lparr>environ = example_environ,
      clock = (\<lambda>k. now),
      isoformat = (\<lambda>t. ''2023-11-14T22:13:20''),
      int_of_str = decimal,
      fromtimestamp_error = (\<lambda>ms. None),
      utc_offset = (\<lambda>t. 0),
      connect_error = (\<lambda>url. None),
      select_error = None,
      update_error = None,
      commit_error = None,
      publisher_error = None,
      publish_outcome = (\<lambda>k topic_path message. Inr ''1''),
      build_error = None,
      watch_outcome = (\<lambda>call. Inr example_response)\<rparr>"

definition example_watch :: gmail_watches_row where
  "example_watch =
     \<lparr>watches_user_id = JStr ''U1'',
      watches_email = JStr ''u1@example.com'',
      watches_watch_id = JStr ''W1'',
      watches_expiration_time = Some (now + 1800000000),
      watches_is_active = True\<rparr>"

definition example_mailbox_watch :: gmail_mailbox_watches_row where
  "example_mailbox_watch =
     \<lparr>mailbox_account_id = JStr ''A1'',
      mailbox_history_id = JStr ''100'',
      mailbox_watch_expiration = Some (now + 1800000000),
      mailbox_is_active = True\<rparr>"

definition example_system :: system where
  "example_system =
     \<lparr>gmail_watches = [example_watch],
      gmail_mailbox_watches = [example_mailbox_watch],
      published = [],
      provider_calls = [],
      connections = 0,
      closed = 0,
      commits = 0,
      logs = []\<rparr>"

text \<open>A renewal message with the five fields the Worker requires, and the old watch's id.\<close>

definition example_request :: "(string \<times> json) list" where
  "example_request =
     [(''account_id'', JStr ''A1''),
      (''user_id'', JStr ''U1''),
      (''email'', JStr ''u1@example.com''),
      (''access_token'', JStr ''access''),
      (''refresh_token'', JStr ''refresh''),
      (''watch_id'', JStr ''W1'')]"

text \<open>A second message for the same account and tokens, with another user, email and watch id.\<close>

definition example_request_other :: "(string \<times> json) list" where
  "example_request_other =
     [(''account_id'', JStr ''A1''),
      (''user_id'', JStr ''U2''),
      (''email'', JStr ''u2@example.com''),
      (''access_token'', JStr ''access''),
      (''refresh_token'', JStr ''refresh''),
      (''watch_id'', JStr ''W2'')]"

text \<open>A message without the tokens and the account id: what the Scanner publishes for U1.\<close>

definition example_scanner_message :: "(string \<times> json) list" where
  "example_scanner_message =
     [(''user_id'', JStr ''U1''),
      (''email'', JStr ''u1@example.com''),
      (''watch_id'', JStr ''W1''),
      (''action'', JStr ''renew_watch''),
      (''timestamp'', JStr ''2023-11-14T22:13:20'')]"

text \<open>
  A provider that answers with an expiration one millisecond after \<open>2 ^ 33\<close> seconds (in
  the year 2242), and a process whose local time is five hours behind UTC.
\<close>

definition far_future_world :: world where
  "far_future_world =
     example_world
       \<lparr>watch_outcome :=
          (\<lambda>call. Inr (JObj [(''historyId'', JStr ''999''),
                              (''expiration'', JStr ''8589934592001'')]))\<rparr>"

definition behind_utc_world :: world where
  "behind_utc_world = example_world\<lparr>utc_offset := (\<lambda>t. - 18000)\<rparr>"

text \<open>
  A table of the Worker with three rows: an inactive row of account A1, an active row of
  account A2, and the active row of account A1.
\<close>

definition mailbox_row :: "string \<Rightarrow> string \<Rightarrow> bool \<Rightarrow> gmail_mailbox_watches_row" where
  "mailbox_row account history active =
     \<lparr>mailbox_account_id = JStr account,
      mailbox_history_id = JStr history,
      mailbox_watch_expiration = Some (now + 1800000000),
      mailbox_is_active = active\<rparr>"

definition shared_system :: system where
  "shared_system =
     example_system
       \<lparr>gmail_mailbox_watches :=
          [mailbox_row ''A1'' ''50'' False,
           mailbox_row ''A2'' ''70'' True,
           mailbox_row ''A1'' ''100'' True]\<rparr>"

text \<open>The same world with the provider refusing the call, and with the client secret unset.\<close>

definition provider_error_world :: world where
  "provider_error_world =
     example_world\<lparr>watch_outcome := (\<lambda>call. Inl (HttpError ''403 Forbidden''))\<rparr>"

definition unconfigured_world :: world where
  "unconfigured_world =
     example_world\<lparr>environ := example_environ(''GOOGLE_CLIENT_SECRET'' := None)\<rparr>"

text \<open>
  A fuller table for the Scanner: two active watches that expire within two hours, stored
  latest first, an inactive one, one that expires in three hours and one with no
  expiration.
\<close>

definition watch_row :: "string \<Rightarrow> timestamp option \<Rightarrow> bool \<Rightarrow> gmail_watches_row" where
  "watch_row n expires active =
     \<lparr>watches_user_id = JStr (''U'' @ n),
      watches_email = JStr (''u'' @ n @ ''@example.com''),
      watches_watch_id = JStr (''W'' @ n),
      watches_expiration_time = expires,
      watches_is_active = active\<rparr>"

definition busy_system :: system where
  "busy_system =
     example_system
       \<lparr>gmail_watches :=
          [watch_row ''2'' (Some (now + 3600000000)) True,
           watch_row ''3'' (Some (now + 600000000)) False,
           watch_row ''1'' (Some (now + 1800000000)) True,
           watch_row ''4'' (Some (now + 10800000000)) True,
           watch_row ''5'' None True]\<rparr>"

text \<open>A world in which the first publish is acknowledged and the second times out.\<close>

definition publish_fails_world :: world where
  "publish_fails_world =
     example_world
       \<lparr>publish_outcome :=
          (\<lambda>k topic_path message.
             if k = 0 then Inr ''1'' else Inl (LibraryError ''Deadline Exceeded''))\<rparr>"

text \<open>
  A store with no watch at all, a world without \<^verbatim>\<open>DATABASE_URL\<close>, and worlds in which the
  store refuses the connection or the query.
\<close>

definition idle_system :: system where
  "idle_system = example_system\<lparr>gmail_watches := []\<rparr>"

definition no_database_url_world :: world where
  "no_database_url_world =
     example_world\<lparr>environ := example_environ(''DATABASE_URL'' := None)\<rparr>"

definition store_down_world :: world where
  "store_down_world =
     example_world\<lparr>connect_error := (\<lambda>url. Some (LibraryError ''connection refused''))\<rparr>"

definition query_fails_world :: world where
  "query_fails_world =
     example_world\<lparr>select_error := Some (LibraryError ''relation does not exist'')\<rparr>"

section \<open>Properties\<close>

subsection \<open>The conversion of the expiration\<close>

lemma round_half_even_error: "\<bar>of_int (round_half_even x) - x\<bar> \<le> 1 / 2"
proof -
  have "of_int \<lfloor>x\<rfloor> \<le> x" "x < of_int \<lfloor>x\<rfloor> + 1"
    by linarith+
  then show ?thesis
    by (auto simp add: round_half_even_def Let_def)
qed

lemma round_half_even_unique:
  assumes "\<bar>x - of_int n\<bar> < 1 / 2"
  shows "round_half_even x = n"
proof -
  have "\<bar>of_int (round_half_even x) - x\<bar> \<le> 1 / 2"
    by (rule round_half_even_error)
  then have "\<bar>(of_int (round_half_even x) :: rat) - of_int n\<bar> < 1"
    using assms by linarith
  then have "\<bar>(of_int (round_half_even x - n) :: rat)\<bar> < 1"
    by simp
  then have "\<bar>round_half_even x - n\<bar> < 1"
    by (simp only: flip: of_int_abs)
  then show ?thesis
    by linarith
qed

lemma round_half_even_nonneg: "0 \<le> x \<Longrightarrow> 0 \<le> round_half_even x"
  by (auto simp add: round_half_even_def Let_def)

lemma floor_log2_nonneg: "0 \<le> floor_log2 n"
proof (induction n rule: floor_log2.induct)
  case (1 n)
  then show ?case
    by (subst floor_log2.simps) simp
qed

lemma floor_log2_bounds:
  "1 \<le> n \<Longrightarrow> 2 ^ nat (floor_log2 n) \<le> n \<and> n < 2 * 2 ^ nat (floor_log2 n)"
proof (induction n rule: floor_log2.induct)
  case (1 n)
  show ?case
  proof (cases "n < 2")
    case True
    then have "floor_log2 n = 0"
      by (subst floor_log2.simps) simp
    then show ?thesis using True "1.prems" by simp
  next
    case False
    then have ih: "2 ^ nat (floor_log2 (n div 2)) \<le> n div 2
                   \<and> n div 2 < 2 * 2 ^ nat (floor_log2 (n div 2))"
      using "1.IH" by simp
    have "floor_log2 n = 1 + floor_log2 (n div 2)"
      using False by (subst floor_log2.simps) simp
    then have "nat (floor_log2 n) = Suc (nat (floor_log2 (n div 2)))"
      using floor_log2_nonneg [of "n div 2"] by simp
    then show ?thesis
      using ih by simp linarith
  qed
qed

lemma ceil_log2_nonneg: "0 \<le> ceil_log2 n"
proof (induction n rule: ceil_log2.induct)
  case (1 n)
  then show ?case
    by (subst ceil_log2.simps) simp
qed

lemma ceil_log2_small: "ceil_log2 1 = 0" "ceil_log2 2 = 1" "ceil_log2 3 = 2"
  by code_simp+

lemma ceil_log2_bounds:
  "2 \<le> n \<Longrightarrow> 2 ^ nat (ceil_log2 n) \<le> 2 * (n - 1) \<and> n \<le> 2 ^ nat (ceil_log2 n)"
proof (induction n rule: ceil_log2.induct)
  case (1 n)
  show ?case
  proof (cases "n < 4")
    case True
    then have "n = 2 \<or> n = 3" using "1.prems" by linarith
    then show ?thesis
      by (auto simp add: ceil_log2_small)
  next
    case False
    then have ih: "2 ^ nat (ceil_log2 ((n + 1) div 2)) \<le> 2 * ((n + 1) div 2 - 1)
                   \<and> (n + 1) div 2 \<le> 2 ^ nat (ceil_log2 ((n + 1) div 2))"
      using "1.IH" by simp
    have "ceil_log2 n = 1 + ceil_log2 ((n + 1) div 2)"
      using False by (subst ceil_log2.simps) simp
    then have "nat (ceil_log2 n) = Suc (nat (ceil_log2 ((n + 1) div 2)))"
      using ceil_log2_nonneg [of "(n + 1) div 2"] by simp
    then show ?thesis
      using ih by simp linarith
  qed
qed


lemma exponent_bounds:
  assumes "0 < x"
  shows "2 powi exponent x \<le> x \<and> x < 2 powi (exponent x + 1)"
proof (cases "1 \<le> x")
  case True
  define n where "n = \<lfloor>x\<rfloor>"
  have n: "1 \<le> n" "of_int n \<le> x" "x < of_int n + 1"
    using True by (simp_all add: n_def) linarith+
  have e: "exponent x = floor_log2 n"
    using True by (simp add: exponent_def n_def)
  have b: "2 ^ nat (floor_log2 n) \<le> n" "n + 1 \<le> 2 * 2 ^ nat (floor_log2 n)"
    using floor_log2_bounds [OF n(1)] by simp_all
  have p1: "(2::rat) powi floor_log2 n = 2 ^ nat (floor_log2 n)"
    using floor_log2_nonneg [of n] by (simp add: power_int_def)
  have p2: "(2::rat) powi (floor_log2 n + 1) = 2 * 2 ^ nat (floor_log2 n)"
    using floor_log2_nonneg [of n] by (simp add: power_int_def nat_add_distrib)
  have "(of_int (2 ^ nat (floor_log2 n)) :: rat) \<le> of_int n"
    using b(1) by (simp only: of_int_le_iff)
  then have r1: "(2::rat) ^ nat (floor_log2 n) \<le> of_int n"
    by simp
  have "(of_int (n + 1) :: rat) \<le> of_int (2 * 2 ^ nat (floor_log2 n))"
    using b(2) by (simp only: of_int_le_iff)
  then have r2: "of_int n + 1 \<le> (2::rat) * 2 ^ nat (floor_log2 n)"
    by simp
  show ?thesis
    unfolding e p1 p2 using n(2,3) r1 r2 by linarith
next
  case False
  define n where "n = \<lceil>1 / x\<rceil>"
  have gt: "1 < 1 / x"
    using False assms by simp
  have n: "2 \<le> n" "1 / x \<le> of_int n" "of_int n - 1 < 1 / x"
    using gt by (simp_all add: n_def) linarith+
  have e: "exponent x = - ceil_log2 n"
    using False by (simp add: exponent_def n_def)
  define p where "p = (2::int) ^ nat (ceil_log2 n)"
  have b: "p \<le> 2 * (n - 1)" "n \<le> p"
    using ceil_log2_bounds [OF n(1)] by (simp_all add: p_def)
  have pos: "0 < p"
    by (simp add: p_def)
  have p1: "(2::rat) powi (- ceil_log2 n) = 1 / of_int p"
    using ceil_log2_nonneg [of n]
    by (simp add: power_int_minus power_int_def p_def field_simps)
  have p2: "(2::rat) powi (- ceil_log2 n + 1) = 2 / of_int p"
  proof -
    have "(2::rat) powi (- ceil_log2 n + 1) = 2 powi (- ceil_log2 n) * 2 powi 1"
      by (rule power_int_add) simp
    then show ?thesis
      by (simp add: p1)
  qed
  have "1 / x \<le> of_int p"
    using n(2) b(2) by (meson of_int_le_iff order_trans)
  then have lower: "1 / of_int p \<le> x"
    using assms pos by (simp add: field_simps)
  have "(of_int p :: rat) \<le> of_int (2 * (n - 1))"
    using b(1) by (simp only: of_int_le_iff)
  then have "of_int p < 2 * (1 / x)"
    using n(3) by simp
  then have upper: "x < 2 / of_int p"
    using assms pos by (simp add: field_simps)
  show ?thesis
    unfolding e p1 p2 using lower upper by simp
qed

lemma double_nonneg: "0 \<le> x \<Longrightarrow> 0 \<le> double x"
proof -
  assume x: "0 \<le> x"
  have "0 \<le> round_half_even (x / 2 powi (exponent \<bar>x\<bar> - 52))"
    using x by (intro round_half_even_nonneg) simp
  then show ?thesis
    by (simp add: double_def Let_def)
qed

lemma double_error:
  assumes "0 < x" and "x < 2 powi E"
  shows "\<bar>double x - x\<bar> \<le> 2 powi (E - 54)"
proof -
  define e where "e = exponent x"
  define u :: rat where "u = 2 powi (e - 52)"
  have u: "0 < u"
    by (simp add: u_def)
  have "2 powi e \<le> x"
    using exponent_bounds [OF assms(1)] by (simp add: e_def)
  then have "(2::rat) powi e < 2 powi E"
    using assms(2) by simp
  then have "e < E"
    by (metis linorder_not_le one_less_numeral_iff power_int_increasing
          semiring_norm(76) less_eq_rat_def not_less order_less_imp_le)
  then have "e - 53 \<le> E - 54"
    by simp
  then have le: "(2::rat) powi (e - 53) \<le> 2 powi (E - 54)"
    by (intro power_int_increasing) simp_all
  have half: "u / 2 = 2 powi (e - 53)"
    by (simp add: u_def power_int_diff)
  have d: "double x = of_int (round_half_even (x / u)) * u"
    using assms(1) by (simp add: double_def Let_def u_def e_def)
  have "\<bar>of_int (round_half_even (x / u)) - x / u\<bar> \<le> 1 / 2"
    by (rule round_half_even_error)
  then have "\<bar>of_int (round_half_even (x / u)) - x / u\<bar> * u \<le> 1 / 2 * u"
    using u by (intro mult_right_mono) simp_all
  moreover have "of_int (round_half_even (x / u)) * u - x = (of_int (round_half_even (x / u)) - x / u) * u"
    using u by (simp add: field_simps)
  then have "\<bar>of_int (round_half_even (x / u)) - x / u\<bar> * u = \<bar>of_int (round_half_even (x / u)) * u - x\<bar>"
    using u by (simp add: abs_mult)
  ultimately have "\<bar>double x - x\<bar> \<le> u / 2"
    by (simp add: d)
  then show ?thesis
    using le half by simp
qed


lemma double_zero: "double 0 = 0"
  by (simp add: double_def)

lemma double_error_nonneg:
  assumes "0 \<le> x" and "x < 2 powi E"
  shows "\<bar>double x - x\<bar> \<le> 2 powi (E - 54)"
proof (cases "x = 0")
  case True
  then show ?thesis
    by (simp add: double_zero)
next
  case False
  then have "0 < x"
    using assms(1) by simp
  then show ?thesis
    using assms(2) by (rule double_error)
qed


text \<open>
  Below \<open>2 ^ 33\<close> seconds the float quotient is within \<open>2 powi - 21\<close> of the exact one, less
  than half a microsecond: the conversion then returns the exact seconds and microseconds.
\<close>

lemma to_timeval_exact:
  assumes "0 \<le> ms" and "ms < 8589934592000"
  shows "to_timeval (float_div ms 1000) = (ms div 1000, ms mod 1000 * 1000)"
proof -
  define X :: rat where "X = of_int ms / 1000"
  define t where "t = float_div ms 1000"
  define i where "i = \<lfloor>t\<rfloor>"
  define P where "P = (t - of_int i) * 1000000"
  define N where "N = round_half_even (double P)"
  define M where "M = ms * 1000 - i * 1000000"
  have t: "t = double X"
    by (simp add: t_def float_div_def X_def)
  have X: "0 \<le> X" "X < 2 powi 33"
    using assms by (simp_all add: X_def)
  have t0: "0 \<le> t"
    unfolding t using X(1) by (rule double_nonneg)
  have "\<bar>t - X\<bar> \<le> 2 powi (33 - 54)"
    unfolding t using X by (rule double_error_nonneg)
  then have tX: "\<bar>t - X\<bar> \<le> 1 / 2097152"
    by (simp add: power_int_minus)
  have tr: "trunc t = \<lfloor>t\<rfloor>"
    using t0 by (simp add: trunc_def)
  have fl: "of_int i \<le> t" "t < of_int i + 1"
    unfolding i_def by linarith+
  have P: "0 \<le> P" "P < 1000000"
    using fl by (simp_all add: P_def)
  then have "P < 2 powi 20"
    by simp
  with P(1) have "\<bar>double P - P\<bar> \<le> 2 powi (20 - 54)"
    by (rule double_error_nonneg)
  then have dP: "\<bar>double P - P\<bar> \<le> 1 / 17179869184"
    by (simp add: power_int_minus)
  have PM: "P - of_int M = (t - X) * 1000000"
    by (simp add: P_def M_def X_def algebra_simps)
  have "\<bar>P - of_int M\<bar> = \<bar>t - X\<bar> * \<bar>1000000\<bar>"
    unfolding PM by (rule abs_mult)
  then have "\<bar>P - of_int M\<bar> \<le> 1000000 / 2097152"
    using tX by simp
  then have close: "\<bar>double P - of_int M\<bar> < 1 / 2"
    using dP by linarith
  then have NM: "N = M"
    unfolding N_def by (rule round_half_even_unique)
  have "0 \<le> double P"
    using P(1) by (rule double_nonneg)
  then have N0: "0 \<le> N"
    unfolding N_def by (rule round_half_even_nonneg)
  have c: "to_timeval t = (if 1000000 \<le> N then (i + 1, N - 1000000)
                          else if N < 0 then (i - 1, N + 1000000) else (i, N))"
    unfolding to_timeval_def Let_def N_def P_def i_def tr by (rule refl)
  have "(of_int M :: rat) < 1000001"
    using close dP P(2) by linarith
  then have "(of_int M :: rat) < of_int 1000001"
    by simp
  then have "M < 1000001"
    by (simp only: of_int_less_iff)
  then have N1: "N \<le> 1000000"
    using NM by simp
  obtain s u where su: "to_timeval t = (s, u)"
    by (cases "to_timeval t")
  have "s * 1000000 + u = ms * 1000 \<and> 0 \<le> u \<and> u < 1000000"
    using su c N0 N1 NM by (auto simp add: M_def split: if_splits)
  then have eq: "ms * 1000 = s * 1000000 + u" and u: "0 \<le> u" "u < 1000000"
    by simp_all
  define v where "v = ms - s * 1000"
  have v: "u = v * 1000"
    using eq by (simp add: v_def)
  have ms: "ms = s * 1000 + v" and vb: "0 \<le> v" "v < 1000"
    using eq u v by simp_all
  have "ms div 1000 = s"
    using ms vb by simp
  moreover have "ms mod 1000 = v"
    using ms vb by simp
  ultimately show ?thesis
    using su v by (simp add: t_def)
qed

lemma fromtimestamp_ms_exact:
  assumes "fromtimestamp_error w ms = None"
    and "0 \<le> ms"
    and "ms < 8589934592000"
  shows "fromtimestamp_ms w ms =
           Inr (ms * 1000 + utc_offset w (ms div 1000) * 1000000)"
proof -
  have "ms div 1000 * 1000000 + ms mod 1000 * 1000 = ms * 1000"
    by presburger
  then show ?thesis
    using assms
    by (simp add: fromtimestamp_ms_def fromtimestamp_def to_timeval_exact algebra_simps)
qed

text \<open>
  One millisecond past \<open>2 ^ 33\<close> seconds the quotient \<^verbatim>\<open>8589934592001 / 1000\<close> is the double
  \<open>8589934592.0009994507\<close>, and the conversion returns 999 microseconds, not 1000.
\<close>

lemma to_timeval_far_future:
  "to_timeval (float_div 8589934592001 1000) = (8589934592, 999)"
  by code_simp

lemma fromtimestamp_ms_far_future:
  "fromtimestamp_ms far_future_world 8589934592001 = Inr 8589934592000999"
  by (simp add: fromtimestamp_ms_def fromtimestamp_def to_timeval_far_future far_future_world_def
        example_world_def)

lemma fromtimestamp_ms_behind_utc:
  "fromtimestamp_ms behind_utc_world 1700604800000 = Inr 1700586800000000"
  using fromtimestamp_ms_exact [of behind_utc_world 1700604800000]
  by (simp add: behind_utc_world_def example_world_def)


subsection \<open>The validation loop\<close>

lemma missing_field_Some:
  "field \<in> set fs \<Longrightarrow> map_of d field = None \<Longrightarrow> \<exists>f. missing_field d fs = Some f"
  by (induction fs) auto

lemma missing_field_None:
  "missing_field d fs = None \<Longrightarrow> field \<in> set fs \<Longrightarrow> \<exists>v. map_of d field = Some v"
  by (induction fs) (auto split: if_splits)

lemma missing_field_None_iff:
  "missing_field d fs = None \<longleftrightarrow> (\<forall>f\<in>set fs. map_of d f \<noteq> None)"
  by (induction fs) auto

lemma subscript_present:
  "missing_field d required_fields = None \<Longrightarrow> field \<in> set required_fields
   \<Longrightarrow> subscript d field = Inr (dict_get d field)"
  using missing_field_None [of d required_fields field]
  by (auto simp: subscript_def dict_get_def)

subsection \<open>What the provider call reads and changes\<close>

text \<open>
  The result of \<open>renew_gmail_watch\<close> does not depend on the state, and the call changes
  nothing but the list of provider calls and the log.
\<close>

lemma renew_gmail_watch_try_result:
  "fst (renew_gmail_watch_try w a r s) = fst (renew_gmail_watch_try w a r t)"
  by (simp add: renew_gmail_watch_try_def Let_def split: option.splits sum.splits)

lemma renew_gmail_watch_try_frame:
  "gmail_mailbox_watches (snd (renew_gmail_watch_try w a r s)) = gmail_mailbox_watches s"
  "gmail_watches (snd (renew_gmail_watch_try w a r s)) = gmail_watches s"
  "published (snd (renew_gmail_watch_try w a r s)) = published s"
  "connections (snd (renew_gmail_watch_try w a r s)) = connections s"
  "closed (snd (renew_gmail_watch_try w a r s)) = closed s"
  "commits (snd (renew_gmail_watch_try w a r s)) = commits s"
  by (simp_all add: renew_gmail_watch_try_def Let_def logger_def split: option.splits sum.splits)

lemma renew_gmail_watch_fst:
  "fst (renew_gmail_watch w a r s) =
     (case fst (renew_gmail_watch_try w a r s) of
        Inr x \<Rightarrow> x
      | Inl (HttpError m) \<Rightarrow> NotRenewed (''Gmail API error: '' @ m)
      | Inl e \<Rightarrow> NotRenewed (''Failed to renew Gmail watch: '' @ str_exn e))"
  by (cases "renew_gmail_watch_try w a r s")
     (simp add: renew_gmail_watch_def split: sum.splits exn.splits)

lemma renew_gmail_watch_result:
  "fst (renew_gmail_watch w a r s) = fst (renew_gmail_watch w a r t)"
  by (simp only: renew_gmail_watch_fst renew_gmail_watch_try_result [of w a r s t])

lemma renew_gmail_watch_snd:
  "snd (renew_gmail_watch w a r s) =
     (case fst (renew_gmail_watch_try w a r s) of
        Inr x \<Rightarrow> snd (renew_gmail_watch_try w a r s)
      | Inl (HttpError m) \<Rightarrow>
          logger ERROR ''Gmail API error during renewal: {}'' [JStr m]
            (snd (renew_gmail_watch_try w a r s))
      | Inl e \<Rightarrow>
          logger ERROR ''Failed to renew Gmail watch: {}'' [JStr (str_exn e)]
            (snd (renew_gmail_watch_try w a r s)))"
  by (cases "renew_gmail_watch_try w a r s")
     (simp add: renew_gmail_watch_def split: sum.splits exn.splits)

lemma renew_gmail_watch_frame:
  "gmail_mailbox_watches (snd (renew_gmail_watch w a r s)) = gmail_mailbox_watches s"
  "gmail_watches (snd (renew_gmail_watch w a r s)) = gmail_watches s"
  "published (snd (renew_gmail_watch w a r s)) = published s"
  "connections (snd (renew_gmail_watch w a r s)) = connections s"
  "closed (snd (renew_gmail_watch w a r s)) = closed s"
  "commits (snd (renew_gmail_watch w a r s)) = commits s"
  by (simp_all add: renew_gmail_watch_snd logger_def renew_gmail_watch_try_frame
        split: sum.splits exn.splits)


subsection \<open>What the store update changes\<close>

lemma update_with_connection_frame:
  "gmail_watches (snd (update_with_connection w a h x s)) = gmail_watches s"
  "published (snd (update_with_connection w a h x s)) = published s"
  "provider_calls (snd (update_with_connection w a h x s)) = provider_calls s"
  "connections (snd (update_with_connection w a h x s)) = connections s"
  "closed (snd (update_with_connection w a h x s)) = closed s"
  by (simp_all add: update_with_connection_def logger_def split: option.splits sum.splits)

lemma update_with_connection_commits:
  "commits (snd (update_with_connection w a h x s)) \<noteq> commits s
   \<Longrightarrow> 0 < rowcount a (gmail_mailbox_watches s)"
  by (simp add: update_with_connection_def logger_def split: option.splits sum.splits if_splits)

lemma update_with_connection_zero:
  "rowcount a (gmail_mailbox_watches s) = 0 \<Longrightarrow>
   gmail_mailbox_watches (snd (update_with_connection w a h x s)) = gmail_mailbox_watches s
   \<and> commits (snd (update_with_connection w a h x s)) = commits s"
  by (simp add: update_with_connection_def logger_def split: option.splits sum.splits)

lemma update_watch_in_database_snd:
  "snd (update_watch_in_database w a h x s) =
     (if \<not> truthy (getenv w ''DATABASE_URL'')
      then logger ERROR ''Failed to update watch in database: {}''
             [JStr ''Missing DATABASE_URL environment variable''] s
      else case connect_error w (getenv w ''DATABASE_URL'') of
             Some e \<Rightarrow> logger ERROR ''Failed to update watch in database: {}'' [JStr (str_exn e)] s
           | None \<Rightarrow>
               (let u = update_with_connection w a h x (s\<lparr>connections := connections s + 1\<rparr>)
                in case fst u of
                     Inl e \<Rightarrow> (logger ERROR ''Failed to update watch in database: {}''
                                 [JStr (str_exn e)] (snd u))\<lparr>closed := closed (snd u) + 1\<rparr>
                   | Inr v \<Rightarrow> (snd u)\<lparr>closed := closed (snd u) + 1\<rparr>))"
  by (simp add: update_watch_in_database_def Let_def split: option.splits sum.splits prod.splits)

lemma update_watch_in_database_frame:
  "gmail_watches (snd (update_watch_in_database w a h x s)) = gmail_watches s"
  "published (snd (update_watch_in_database w a h x s)) = published s"
  "provider_calls (snd (update_watch_in_database w a h x s)) = provider_calls s"
  by (simp_all add: update_watch_in_database_snd Let_def logger_def update_with_connection_frame
        split: option.splits sum.splits)

lemma update_watch_in_database_commits:
  "commits (snd (update_watch_in_database w a h x s)) \<noteq> commits s
   \<Longrightarrow> 0 < rowcount a (gmail_mailbox_watches s)"
  using update_with_connection_commits [of w a h x "s\<lparr>connections := connections s + 1\<rparr>"]
  by (simp add: update_watch_in_database_snd Let_def logger_def
        split: option.splits sum.splits if_splits)

lemma update_watch_in_database_zero:
  "rowcount a (gmail_mailbox_watches s) = 0 \<Longrightarrow>
   gmail_mailbox_watches (snd (update_watch_in_database w a h x s)) = gmail_mailbox_watches s
   \<and> commits (snd (update_watch_in_database w a h x s)) = commits s"
  using update_with_connection_zero [of a "s\<lparr>connections := connections s + 1\<rparr>" w h x]
  by (simp add: update_watch_in_database_snd Let_def logger_def
        split: option.splits sum.splits)

lemma renew_gmail_watch_success:
  assumes "truthy (getenv w ''GCP_PROJECT_ID'')"
    and "truthy (getenv w ''GOOGLE_CLIENT_ID'')"
    and "truthy (getenv w ''GOOGLE_CLIENT_SECRET'')"
    and "build_error w = None"
    and "watch_outcome w (gmail_watch_call w a r) = Inr (JObj response)"
  shows "fst (renew_gmail_watch w a r s) =
           Renewed (dict_get response ''historyId'') (dict_get response ''expiration'')"
  using assms by (simp add: renew_gmail_watch_fst renew_gmail_watch_try_def Let_def)

lemma renew_gmail_watch_unconfigured:
  assumes "\<not> truthy (getenv w ''GCP_PROJECT_ID'') \<or> \<not> truthy (getenv w ''GOOGLE_CLIENT_ID'')
           \<or> \<not> truthy (getenv w ''GOOGLE_CLIENT_SECRET'')"
  shows "fst (renew_gmail_watch w a r s) =
           NotRenewed ''Failed to renew Gmail watch: Missing required environment variables''"
  using assms by (auto simp add: renew_gmail_watch_fst renew_gmail_watch_try_def)

lemma renew_gmail_watch_provider_error:
  assumes "truthy (getenv w ''GCP_PROJECT_ID'')"
    and "truthy (getenv w ''GOOGLE_CLIENT_ID'')"
    and "truthy (getenv w ''GOOGLE_CLIENT_SECRET'')"
    and "build_error w = None"
    and "watch_outcome w (gmail_watch_call w a r) = Inl e"
  shows "\<exists>err. fst (renew_gmail_watch w a r s) = NotRenewed err"
  using assms
  by (cases e) (simp_all add: renew_gmail_watch_fst renew_gmail_watch_try_def Let_def)

lemma update_watch_in_database_success:
  assumes "truthy (getenv w ''DATABASE_URL'')"
    and "connect_error w (getenv w ''DATABASE_URL'') = None"
    and "py_int w x = Inr ms"
    and "fromtimestamp_ms w ms = Inr t"
    and "update_error w = None"
    and "commit_error w = None"
    and "0 < rowcount a (gmail_mailbox_watches s)"
  shows "update_watch_in_database w a h x s =
           (Inr (),
            s\<lparr>gmail_mailbox_watches := sql_update h t a (gmail_mailbox_watches s),
              connections := connections s + 1,
              closed := closed s + 1,
              commits := commits s + 1,
              logs := logs s @
                [Log INFO ''Updated Gmail watch in database: account_id={}, history_id={}, expiration={}''
                   [a, h, JNum t]]\<rparr>)"
proof -
  have "update_with_connection w a h x (s\<lparr>connections := connections s + 1\<rparr>) =
          (Inr (),
           logger INFO ''Updated Gmail watch in database: account_id={}, history_id={}, expiration={}''
             [a, h, JNum t]
             (s\<lparr>connections := connections s + 1,
                gmail_mailbox_watches := sql_update h t a (gmail_mailbox_watches s),
                commits := commits s + 1\<rparr>))"
    using assms by (simp add: update_with_connection_def)
  then show ?thesis
    using assms(1,2) by (simp add: update_watch_in_database_def logger_def)
qed

lemma sql_update_other:
  "\<forall>r\<in>set rows. \<not> update_where a r \<Longrightarrow> sql_update h t a rows = rows"
  by (induction rows) (simp_all add: sql_update_def)

lemma sql_update_single:
  assumes "update_where a row"
    and "\<forall>r\<in>set (before @ after). \<not> update_where a r"
  shows "sql_update h t a (before @ [row] @ after) =
           before @ [row\<lparr>mailbox_history_id := h, mailbox_watch_expiration := Some t\<rparr>] @ after"
proof -
  have "sql_update h t a before = before" "sql_update h t a after = after"
    using assms(2) by (simp_all add: sql_update_other)
  then show ?thesis
    using assms(1) by (simp add: sql_update_def)
qed

lemma rowcount_single:
  "update_where a row \<Longrightarrow> 0 < rowcount a (before @ [row] @ after)"
  by (simp add: rowcount_def)

subsection \<open>The entry point, step by step\<close>

lemma worker_try_missing:
  "event ''data'' = Some (Encodes (JObj d)) \<Longrightarrow> missing_field d required_fields = Some f \<Longrightarrow>
   renewal_worker_function_try w event s =
     (Inl (ValueError (''Missing required field: '' @ f)),
      logger INFO ''Processing Gmail watch renewal for user {} ({})''
        [dict_get d ''user_id'', dict_get d ''email''] s)"
  by (simp add: renewal_worker_function_try_def)

lemma worker_try_present:
  "event ''data'' = Some (Encodes (JObj d)) \<Longrightarrow> missing_field d required_fields = None \<Longrightarrow>
   renewal_worker_function_try w event s =
     renew_and_update w d
       (logger INFO ''Processing Gmail watch renewal for user {} ({})''
          [dict_get d ''user_id'', dict_get d ''email''] s)"
  by (simp add: renewal_worker_function_try_def)

lemma renew_and_update_NotRenewed:
  assumes "missing_field d required_fields = None"
    and "fst (renew_gmail_watch w (dict_get d ''access_token'') (dict_get d ''refresh_token'') s)
           = NotRenewed err"
  shows "renew_and_update w d s =
           (Inr (),
            logger ERROR ''Failed to renew Gmail watch for user {}: {}'' [dict_get d ''user_id'', JStr err]
              (snd (renew_gmail_watch w (dict_get d ''access_token'') (dict_get d ''refresh_token'') s)))"
proof -
  have k: "subscript d ''access_token'' = Inr (dict_get d ''access_token'')"
    "subscript d ''refresh_token'' = Inr (dict_get d ''refresh_token'')"
    "subscript d ''user_id'' = Inr (dict_get d ''user_id'')"
    using assms(1) by (simp_all add: subscript_present required_fields_def)
  obtain s1 where "renew_gmail_watch w (dict_get d ''access_token'') (dict_get d ''refresh_token'') s
                     = (NotRenewed err, s1)"
    using assms(2) by (metis fst_conv surj_pair)
  then show ?thesis
    by (simp add: renew_and_update_def k)
qed

lemma renew_and_update_Renewed:
  assumes "missing_field d required_fields = None"
    and "fst (renew_gmail_watch w (dict_get d ''access_token'') (dict_get d ''refresh_token'') s)
           = Renewed h x"
  shows "renew_and_update w d s =
           (case update_watch_in_database w (dict_get d ''account_id'') h x
                   (snd (renew_gmail_watch w (dict_get d ''access_token'')
                           (dict_get d ''refresh_token'') s)) of
              (Inl e, s2) \<Rightarrow> (Inl e, s2)
            | (Inr u, s2) \<Rightarrow>
                (Inr (), logger INFO ''Successfully renewed Gmail watch for user {}''
                           [dict_get d ''user_id''] s2))"
proof -
  have k: "subscript d ''access_token'' = Inr (dict_get d ''access_token'')"
    "subscript d ''refresh_token'' = Inr (dict_get d ''refresh_token'')"
    "subscript d ''user_id'' = Inr (dict_get d ''user_id'')"
    "subscript d ''account_id'' = Inr (dict_get d ''account_id'')"
    using assms(1) by (simp_all add: subscript_present required_fields_def)
  obtain s1 where "renew_gmail_watch w (dict_get d ''access_token'') (dict_get d ''refresh_token'') s
                     = (Renewed h x, s1)"
    using assms(2) by (metis fst_conv surj_pair)
  then show ?thesis
    by (simp add: renew_and_update_def k split: prod.splits sum.splits)
qed

lemma worker_snd:
  "snd (renewal_worker_function w event s) =
     (case fst (renewal_worker_function_try w event s) of
        Inr u \<Rightarrow> snd (renewal_worker_function_try w event s)
      | Inl e \<Rightarrow> logger ERROR ''Renewal worker function failed: {}'' [JStr (str_exn e)]
                  (snd (renewal_worker_function_try w event s)))"
  by (cases "renewal_worker_function_try w event s")
     (simp add: renewal_worker_function_def split: sum.splits)

subsection \<open>The Worker never raises\<close>

text \<open>
  The body of the \<^verbatim>\<open>try\<close> does raise: on a payload that does not decode, on a message that
  is not a dict, on a missing field; and \<open>update_watch_in_database\<close> raises when
  \<^verbatim>\<open>DATABASE_URL\<close> is not set or the connection is refused.
\<close>

lemma worker_try_undecodable:
  "event ''data'' = Some (Undecodable e) \<Longrightarrow> renewal_worker_function_try w event s = (Inl e, s)"
  by (simp add: renewal_worker_function_try_def)

lemma worker_try_not_a_dict:
  "event ''data'' = Some (Encodes (JArr xs)) \<Longrightarrow>
   fst (renewal_worker_function_try w event s) = Inl (AttributeError ''object has no attribute get'')"
  by (simp add: renewal_worker_function_try_def)

lemma update_watch_in_database_connect_error:
  "truthy (getenv w ''DATABASE_URL'') \<Longrightarrow> connect_error w (getenv w ''DATABASE_URL'') = Some e \<Longrightarrow>
   fst (update_watch_in_database w a h x s) = Inl e"
  by (simp add: update_watch_in_database_def)

lemma update_watch_in_database_no_url:
  "\<not> truthy (getenv w ''DATABASE_URL'') \<Longrightarrow>
   fst (update_watch_in_database w a h x s) =
     Inl (ValueError ''Missing DATABASE_URL environment variable'')"
  by (simp add: update_watch_in_database_def Let_def)

text \<open>
  Claim C3. Whatever the event, the configuration and the outcomes of decoding, of the
  provider call and of the store update, \<open>renewal_worker_function\<close> returns normally: its
  result is never an exception.
\<close>

theorem worker_never_raises:
  "fst (renewal_worker_function w event s) = Inr ()"
  by (simp add: renewal_worker_function_def split: prod.splits sum.splits)

subsection \<open>A message with a field missing\<close>

text \<open>
  Claim C4. When the decoded message is a dict from which one of the five required fields
  is absent, the Worker returns normally, makes no call to the provider, opens no store
  connection, commits nothing and leaves both tables as they were.
\<close>

theorem missing_field_no_effect:
  assumes "event ''data'' = Some (Encodes (JObj renewal_request))"
    and "field \<in> set required_fields"
    and "map_of renewal_request field = None"
  shows "fst (renewal_worker_function w event s) = Inr ()
       \<and> provider_calls (snd (renewal_worker_function w event s)) = provider_calls s
       \<and> gmail_mailbox_watches (snd (renewal_worker_function w event s)) = gmail_mailbox_watches s
       \<and> gmail_watches (snd (renewal_worker_function w event s)) = gmail_watches s
       \<and> connections (snd (renewal_worker_function w event s)) = connections s
       \<and> commits (snd (renewal_worker_function w event s)) = commits s"
proof -
  obtain f where f: "missing_field renewal_request required_fields = Some f"
    using missing_field_Some [OF assms(2,3)] by blast
  have "renewal_worker_function_try w event s =
          (Inl (ValueError (''Missing required field: '' @ f)),
           logger INFO ''Processing Gmail watch renewal for user {} ({})''
             [dict_get renewal_request ''user_id'', dict_get renewal_request ''email''] s)"
    by (simp add: renewal_worker_function_try_def assms(1) f)
  then show ?thesis
    by (simp add: renewal_worker_function_def logger_def)
qed

theorem missing_field_no_effect_witness:
  "fst (renewal_worker_function example_world
          (deliver (JObj example_scanner_message)) example_system) = Inr ()
   \<and> provider_calls (snd (renewal_worker_function example_world
          (deliver (JObj example_scanner_message)) example_system)) = []
   \<and> gmail_mailbox_watches (snd (renewal_worker_function example_world
          (deliver (JObj example_scanner_message)) example_system)) = [example_mailbox_watch]
   \<and> connections (snd (renewal_worker_function example_world
          (deliver (JObj example_scanner_message)) example_system)) = 0"
  using missing_field_no_effect
          [of "deliver (JObj example_scanner_message)" example_scanner_message
              "''access_token''" example_world example_system]
  by (simp add: deliver_def required_fields_def example_system_def example_scanner_message_def)

subsection \<open>An update that matches no row\<close>

text \<open>
  Claim C5. When the UPDATE of \<open>update_watch_in_database\<close> runs and matches no row (no
  active row has the account id), the function returns normally, the table and the count
  of commits are as before, and the one entry it logs is a warning. Whatever the world
  does, the table and the commits are unchanged when no row matches, and a commit happens
  only when the UPDATE matched at least one row.
\<close>

theorem update_zero_rows:
  "(truthy (getenv w ''DATABASE_URL'')
      \<and> connect_error w (getenv w ''DATABASE_URL'') = None
      \<and> py_int w expiration_ms = Inr ms
      \<and> fromtimestamp_error w ms = None
      \<and> update_error w = None
      \<and> rowcount account_id (gmail_mailbox_watches s) = 0
    \<longrightarrow> update_watch_in_database w account_id history_id expiration_ms s =
          (Inr (),
           s\<lparr>connections := connections s + 1,
             closed := closed s + 1,
             logs := logs s @ [Log WARNING ''No active Gmail watch found for account_id={}''
                                 [account_id]]\<rparr>))
   \<and> (rowcount account_id (gmail_mailbox_watches s) = 0
    \<longrightarrow> gmail_mailbox_watches (snd (update_watch_in_database w account_id history_id expiration_ms s))
            = gmail_mailbox_watches s
        \<and> commits (snd (update_watch_in_database w account_id history_id expiration_ms s))
            = commits s)
   \<and> (commits (snd (update_watch_in_database w account_id history_id expiration_ms s)) \<noteq> commits s
    \<longrightarrow> 0 < rowcount account_id (gmail_mailbox_watches s))"
proof (intro conjI impI)
  assume h: "truthy (getenv w ''DATABASE_URL'')
      \<and> connect_error w (getenv w ''DATABASE_URL'') = None
      \<and> py_int w expiration_ms = Inr ms
      \<and> fromtimestamp_error w ms = None
      \<and> update_error w = None
      \<and> rowcount account_id (gmail_mailbox_watches s) = 0"
  then have "update_with_connection w account_id history_id expiration_ms
               (s\<lparr>connections := connections s + 1\<rparr>) =
             (Inr (), logger WARNING ''No active Gmail watch found for account_id={}''
                        [account_id] (s\<lparr>connections := connections s + 1\<rparr>))"
    by (simp add: update_with_connection_def fromtimestamp_ms_def)
  with h show "update_watch_in_database w account_id history_id expiration_ms s =
          (Inr (),
           s\<lparr>connections := connections s + 1,
             closed := closed s + 1,
             logs := logs s @ [Log WARNING ''No active Gmail watch found for account_id={}''
                                 [account_id]]\<rparr>)"
    by (simp add: update_watch_in_database_def logger_def)
next
  assume "rowcount account_id (gmail_mailbox_watches s) = 0"
  then show "gmail_mailbox_watches (snd (update_watch_in_database w account_id history_id expiration_ms s))
            = gmail_mailbox_watches s"
    and "commits (snd (update_watch_in_database w account_id history_id expiration_ms s)) = commits s"
    using update_watch_in_database_zero by blast+
next
  assume "commits (snd (update_watch_in_database w account_id history_id expiration_ms s)) \<noteq> commits s"
  then show "0 < rowcount account_id (gmail_mailbox_watches s)"
    by (rule update_watch_in_database_commits)
qed

theorem update_zero_rows_witness:
  "update_watch_in_database example_world (JStr ''A2'') (JStr ''999'') (JStr ''1700604800000'')
     example_system =
     (Inr (),
      example_system
        \<lparr>connections := 1, closed := 1,
         logs := [Log WARNING ''No active Gmail watch found for account_id={}'' [JStr ''A2'']]\<rparr>)
   \<and> 0 < rowcount (JStr ''A1'') (gmail_mailbox_watches example_system)"
  using update_zero_rows [of example_world "JStr ''1700604800000''" 1700604800000 "JStr ''A2''"
          example_system "JStr ''999''"]
    update_zero_rows [of example_world "JStr ''1700604800000''" 1700604800000 "JStr ''A1''"
          example_system "JStr ''999''"]
  by (simp add: example_world_def example_system_def example_environ_def getenv_def decimal_def
        rowcount_def update_where_def sql_eq_def example_mailbox_watch_def)

subsection \<open>A renewal that fails\<close>

text \<open>
  Claim C10. When \<open>renew_gmail_watch\<close> answers \<^verbatim>\<open>success: False\<close> for the tokens of the
  message (a variable of the configuration is missing, \<^verbatim>\<open>build\<close> fails, or the provider
  raises), the Worker returns normally and has opened no store connection, closed none,
  committed nothing, and left both tables as they were.
\<close>

theorem failed_renewal_no_store_access:
  assumes "event ''data'' = Some (Encodes (JObj renewal_request))"
    and "fst (renew_gmail_watch w (dict_get renewal_request ''access_token'')
                (dict_get renewal_request ''refresh_token'') s) = NotRenewed err"
  shows "fst (renewal_worker_function w event s) = Inr ()
       \<and> connections (snd (renewal_worker_function w event s)) = connections s
       \<and> closed (snd (renewal_worker_function w event s)) = closed s
       \<and> commits (snd (renewal_worker_function w event s)) = commits s
       \<and> gmail_mailbox_watches (snd (renewal_worker_function w event s)) = gmail_mailbox_watches s
       \<and> gmail_watches (snd (renewal_worker_function w event s)) = gmail_watches s"
proof (cases "missing_field renewal_request required_fields")
  case (Some f)
  show ?thesis
    by (simp add: worker_snd worker_try_missing [where event = event, OF assms(1) Some] logger_def
          renewal_worker_function_def)
next
  case None
  let ?s1 = "logger INFO ''Processing Gmail watch renewal for user {} ({})''
               [dict_get renewal_request ''user_id'', dict_get renewal_request ''email''] s"
  have "fst (renew_gmail_watch w (dict_get renewal_request ''access_token'')
                (dict_get renewal_request ''refresh_token'') ?s1) = NotRenewed err"
    using assms(2) renew_gmail_watch_result by metis
  then have "renewal_worker_function_try w event s =
               (Inr (),
                logger ERROR ''Failed to renew Gmail watch for user {}: {}''
                  [dict_get renewal_request ''user_id'', JStr err]
                  (snd (renew_gmail_watch w (dict_get renewal_request ''access_token'')
                          (dict_get renewal_request ''refresh_token'') ?s1)))"
    by (simp add: worker_try_present [where event = event, OF assms(1) None] renew_and_update_NotRenewed [OF None])
  then show ?thesis
    by (simp add: renewal_worker_function_def logger_def renew_gmail_watch_frame)
qed


theorem failed_renewal_no_store_access_witness:
  "fst (renew_gmail_watch provider_error_world (JStr ''access'') (JStr ''refresh'') example_system)
     = NotRenewed ''Gmail API error: 403 Forbidden''
   \<and> connections (snd (renewal_worker_function provider_error_world
         (deliver (JObj example_request)) example_system)) = 0
   \<and> gmail_mailbox_watches (snd (renewal_worker_function provider_error_world
         (deliver (JObj example_request)) example_system)) = [example_mailbox_watch]
   \<and> fst (renew_gmail_watch unconfigured_world (JStr ''access'') (JStr ''refresh'') example_system)
     = NotRenewed ''Failed to renew Gmail watch: Missing required environment variables''
   \<and> connections (snd (renewal_worker_function unconfigured_world
         (deliver (JObj example_request)) example_system)) = 0
   \<and> gmail_mailbox_watches (snd (renewal_worker_function unconfigured_world
         (deliver (JObj example_request)) example_system)) = [example_mailbox_watch]"
proof -
  have tokens: "dict_get example_request ''access_token'' = JStr ''access''"
    "dict_get example_request ''refresh_token'' = JStr ''refresh''"
    by (simp_all add: dict_get_def example_request_def)
  have refused: "fst (renew_gmail_watch provider_error_world (JStr ''access'') (JStr ''refresh'')
                   example_system) = NotRenewed ''Gmail API error: 403 Forbidden''"
    by (simp add: renew_gmail_watch_fst renew_gmail_watch_try_def Let_def provider_error_world_def
          example_world_def example_environ_def getenv_def)
  have unset: "fst (renew_gmail_watch unconfigured_world (JStr ''access'') (JStr ''refresh'')
                 example_system) =
               NotRenewed ''Failed to renew Gmail watch: Missing required environment variables''"
    by (simp add: renew_gmail_watch_fst renew_gmail_watch_try_def Let_def unconfigured_world_def
          example_world_def example_environ_def getenv_def)
  show ?thesis
    using failed_renewal_no_store_access
            [of "deliver (JObj example_request)" example_request provider_error_world
                example_system "''Gmail API error: 403 Forbidden''"]
          failed_renewal_no_store_access
            [of "deliver (JObj example_request)" example_request unconfigured_world
                example_system
                "''Failed to renew Gmail watch: Missing required environment variables''"]
          refused unset
    by (simp add: tokens deliver_def example_system_def)
qed

subsection \<open>A renewal that succeeds\<close>

text \<open>
  What a successful renewal writes, whatever datetime line 147 returns: the history id and
  that datetime go to the one row the WHERE clause matches, and the update is committed.
\<close>

lemma renewal_writes:
  assumes "event ''data'' = Some (Encodes (JObj renewal_request))"
    and "\<forall>f\<in>set required_fields. map_of renewal_request f \<noteq> None"
    and "fst (renew_gmail_watch w (dict_get renewal_request ''access_token'')
                (dict_get renewal_request ''refresh_token'') s) = Renewed history_id expiration"
    and "py_int w expiration = Inr expiration_ms"
    and "fromtimestamp_ms w expiration_ms = Inr expiration_dt"
    and "truthy (getenv w ''DATABASE_URL'')"
    and "connect_error w (getenv w ''DATABASE_URL'') = None"
    and "update_error w = None"
    and "commit_error w = None"
    and "gmail_mailbox_watches s = before @ [row] @ after"
    and "update_where (dict_get renewal_request ''account_id'') row"
    and "\<forall>r\<in>set (before @ after). \<not> update_where (dict_get renewal_request ''account_id'') r"
  shows "fst (renewal_worker_function w event s) = Inr ()
       \<and> gmail_mailbox_watches (snd (renewal_worker_function w event s)) =
           before @ [row\<lparr>mailbox_history_id := history_id,
                         mailbox_watch_expiration := Some expiration_dt\<rparr>] @ after
       \<and> commits (snd (renewal_worker_function w event s)) = commits s + 1"
proof -
  define a where "a = dict_get renewal_request ''account_id''"
  define s1 where "s1 = logger INFO ''Processing Gmail watch renewal for user {} ({})''
               [dict_get renewal_request ''user_id'', dict_get renewal_request ''email''] s"
  define s2 where "s2 = snd (renew_gmail_watch w (dict_get renewal_request ''access_token'')
                    (dict_get renewal_request ''refresh_token'') s1)"
  define s3 where "s3 = s2\<lparr>gmail_mailbox_watches :=
                     sql_update history_id expiration_dt a (gmail_mailbox_watches s2),
                   connections := connections s2 + 1,
                   closed := closed s2 + 1,
                   commits := commits s2 + 1,
                   logs := logs s2 @
                     [Log INFO ''Updated Gmail watch in database: account_id={}, history_id={}, expiration={}''
                        [a, history_id, JNum expiration_dt]]\<rparr>"
  have present: "missing_field renewal_request required_fields = None"
    using assms(2) by (simp add: missing_field_None_iff)
  have renewed: "fst (renew_gmail_watch w (dict_get renewal_request ''access_token'')
                (dict_get renewal_request ''refresh_token'') s1) = Renewed history_id expiration"
    using assms(3) renew_gmail_watch_result by metis
  have table: "gmail_mailbox_watches s2 = before @ [row] @ after"
    and commits: "commits s2 = commits s"
    by (simp_all add: s2_def s1_def renew_gmail_watch_frame logger_def assms(10))
  have count: "0 < rowcount a (gmail_mailbox_watches s2)"
    unfolding table a_def using assms(11) by (rule rowcount_single)
  have update: "update_watch_in_database w a history_id expiration s2 = (Inr (), s3)"
    unfolding s3_def by (rule update_watch_in_database_success [OF assms(6,7,4,5,8,9) count])
  have "renewal_worker_function_try w event s = renew_and_update w renewal_request s1"
    unfolding s1_def by (rule worker_try_present [where event = event, OF assms(1) present])
  also have "\<dots> =
          (case update_watch_in_database w a history_id expiration s2 of
             (Inl e, s') \<Rightarrow> (Inl e, s')
           | (Inr u, s') \<Rightarrow>
               (Inr (), logger INFO ''Successfully renewed Gmail watch for user {}''
                          [dict_get renewal_request ''user_id''] s'))"
    unfolding a_def s2_def by (rule renew_and_update_Renewed [OF present renewed])
  also have "\<dots> = (Inr (), logger INFO ''Successfully renewed Gmail watch for user {}''
                          [dict_get renewal_request ''user_id''] s3)"
    by (simp add: update)
  finally have "renewal_worker_function w event s =
                  (Inr (), logger INFO ''Successfully renewed Gmail watch for user {}''
                             [dict_get renewal_request ''user_id''] s3)"
    by (simp add: renewal_worker_function_def)
  then show ?thesis
    using sql_update_single [OF assms(11,12), of history_id expiration_dt]
    by (simp add: logger_def s3_def table commits a_def)
qed

lemma example_renewed:
  "fst (renew_gmail_watch example_world (dict_get example_request ''access_token'')
          (dict_get example_request ''refresh_token'') s) =
     Renewed (JStr ''999'') (JStr ''1700604800000'')"
  using renew_gmail_watch_success [of example_world _ _ "[(''historyId'', JStr ''999''),
            (''expiration'', JStr ''1700604800000'')]"]
  by (simp add: example_world_def getenv_def example_environ_def example_response_def
        dict_get_def)

text \<open>
  Claim C8, as the specification states it (for every successful provider response the
  stored timestamp is the instant \<open>expiration_ms / 1000\<close> seconds after the epoch), fails in
  two ways. The quotient of line 147 is a float: for the expiration 8589934592001, in a
  process that runs in UTC, the row gets 8589934592.000999 seconds, one microsecond before
  the instant. And \<^verbatim>\<open>datetime.fromtimestamp\<close> without \<^verbatim>\<open>tz\<close> returns local time: for the
  expiration 1700604800000 (22:13:20 UTC), in a process five hours behind UTC, the row gets
  the naive datetime 17:13:20 of the same day, 18000 seconds before the instant.
\<close>

theorem renewal_expiration_counterexample:
  "fst (renewal_worker_function far_future_world (deliver (JObj example_request)) example_system)
     = Inr ()
   \<and> gmail_mailbox_watches
        (snd (renewal_worker_function far_future_world (deliver (JObj example_request))
                example_system)) =
       [example_mailbox_watch\<lparr>mailbox_history_id := JStr ''999'',
                               mailbox_watch_expiration := Some 8589934592000999\<rparr>]
   \<and> gmail_mailbox_watches
        (snd (renewal_worker_function far_future_world (deliver (JObj example_request))
                example_system)) \<noteq>
       [example_mailbox_watch\<lparr>mailbox_history_id := JStr ''999'',
                               mailbox_watch_expiration := Some (8589934592001 * 1000)\<rparr>]
   \<and> fst (renewal_worker_function behind_utc_world (deliver (JObj example_request)) example_system)
     = Inr ()
   \<and> gmail_mailbox_watches
        (snd (renewal_worker_function behind_utc_world (deliver (JObj example_request))
                example_system)) =
       [example_mailbox_watch\<lparr>mailbox_history_id := JStr ''999'',
                               mailbox_watch_expiration := Some 1700586800000000\<rparr>]
   \<and> gmail_mailbox_watches
        (snd (renewal_worker_function behind_utc_world (deliver (JObj example_request))
                example_system)) \<noteq>
       [example_mailbox_watch\<lparr>mailbox_history_id := JStr ''999'',
                               mailbox_watch_expiration := Some (1700604800000 * 1000)\<rparr>]"
proof -
  have renewed: "fst (renew_gmail_watch far_future_world (dict_get example_request ''access_token'')
                   (dict_get example_request ''refresh_token'') example_system) =
                 Renewed (JStr ''999'') (JStr ''8589934592001'')"
    using renew_gmail_watch_success [of far_future_world _ _ "[(''historyId'', JStr ''999''),
              (''expiration'', JStr ''8589934592001'')]"]
    by (simp add: far_future_world_def example_world_def getenv_def example_environ_def
          dict_get_def)
  have far: "fst (renewal_worker_function far_future_world (deliver (JObj example_request))
                example_system) = Inr ()
       \<and> gmail_mailbox_watches (snd (renewal_worker_function far_future_world
            (deliver (JObj example_request)) example_system)) =
           [] @ [example_mailbox_watch\<lparr>mailbox_history_id := JStr ''999'',
                         mailbox_watch_expiration := Some 8589934592000999\<rparr>] @ []
       \<and> commits (snd (renewal_worker_function far_future_world
            (deliver (JObj example_request)) example_system)) = commits example_system + 1"
    by (rule renewal_writes [where renewal_request = example_request
                               and expiration_ms = 8589934592001,
                             OF _ _ renewed _ fromtimestamp_ms_far_future])
       (simp_all add: deliver_def required_fields_def example_request_def far_future_world_def
          example_world_def decimal_def getenv_def example_environ_def example_system_def
          update_where_def sql_eq_def dict_get_def example_mailbox_watch_def)
  have renewed': "fst (renew_gmail_watch behind_utc_world (dict_get example_request ''access_token'')
                   (dict_get example_request ''refresh_token'') example_system) =
                 Renewed (JStr ''999'') (JStr ''1700604800000'')"
    using renew_gmail_watch_success [of behind_utc_world _ _ "[(''historyId'', JStr ''999''),
              (''expiration'', JStr ''1700604800000'')]"]
    by (simp add: behind_utc_world_def example_world_def getenv_def example_environ_def
          example_response_def dict_get_def)
  have behind: "fst (renewal_worker_function behind_utc_world (deliver (JObj example_request))
                example_system) = Inr ()
       \<and> gmail_mailbox_watches (snd (renewal_worker_function behind_utc_world
            (deliver (JObj example_request)) example_system)) =
           [] @ [example_mailbox_watch\<lparr>mailbox_history_id := JStr ''999'',
                         mailbox_watch_expiration := Some 1700586800000000\<rparr>] @ []
       \<and> commits (snd (renewal_worker_function behind_utc_world
            (deliver (JObj example_request)) example_system)) = commits example_system + 1"
    by (rule renewal_writes [where renewal_request = example_request
                               and expiration_ms = 1700604800000,
                             OF _ _ renewed' _ fromtimestamp_ms_behind_utc])
       (simp_all add: deliver_def required_fields_def example_request_def behind_utc_world_def
          example_world_def decimal_def getenv_def example_environ_def example_system_def
          update_where_def sql_eq_def dict_get_def example_mailbox_watch_def)
  show ?thesis
    using far behind by (simp add: example_mailbox_watch_def)
qed

text \<open>
  Claim C8, amended. When the message has the five required fields, the provider call
  succeeds with a history id and an expiration that \<^verbatim>\<open>int()\<close> reads as \<open>expiration_ms\<close>
  milliseconds, from 0 and below \<open>2 ^ 33\<close> seconds (8589934592000 milliseconds, in the year
  2242), and the store accepts the update, the Worker writes the history id and the naive
  local time of the instant \<open>expiration_ms / 1000\<close> seconds after the epoch, exact to the
  microsecond, and commits. The row written is the one active row whose account id is the
  message's, an account id that is not null; every other row, whose account id differs or
  which is not active, is as before. When the offset of local time is 0 (the process runs
  in UTC) the timestamp written is the instant itself, \<open>expiration_ms * 1000\<close> microseconds
  after the epoch.
\<close>

theorem renewal_updates_the_row:
  assumes "event ''data'' = Some (Encodes (JObj renewal_request))"
    and "\<forall>f\<in>set required_fields. map_of renewal_request f \<noteq> None"
    and "fst (renew_gmail_watch w (dict_get renewal_request ''access_token'')
                (dict_get renewal_request ''refresh_token'') s) = Renewed history_id expiration"
    and "py_int w expiration = Inr expiration_ms"
    and "0 \<le> expiration_ms"
    and "expiration_ms < 8589934592000"
    and "fromtimestamp_error w expiration_ms = None"
    and "truthy (getenv w ''DATABASE_URL'')"
    and "connect_error w (getenv w ''DATABASE_URL'') = None"
    and "update_error w = None"
    and "commit_error w = None"
    and "gmail_mailbox_watches s = before @ [row] @ after"
    and "dict_get renewal_request ''account_id'' \<noteq> JNull"
    and "mailbox_account_id row = dict_get renewal_request ''account_id''"
    and "mailbox_is_active row"
    and "\<forall>r\<in>set (before @ after).
           mailbox_account_id r \<noteq> dict_get renewal_request ''account_id'' \<or> \<not> mailbox_is_active r"
  shows "fst (renewal_worker_function w event s) = Inr ()
       \<and> gmail_mailbox_watches (snd (renewal_worker_function w event s)) =
           before @
           [row\<lparr>mailbox_history_id := history_id,
                 mailbox_watch_expiration :=
                   Some (expiration_ms * 1000
                         + utc_offset w (expiration_ms div 1000) * 1000000)\<rparr>] @ after
       \<and> commits (snd (renewal_worker_function w event s)) = commits s + 1
       \<and> (utc_offset w (expiration_ms div 1000) = 0 \<longrightarrow>
            gmail_mailbox_watches (snd (renewal_worker_function w event s)) =
              before @
              [row\<lparr>mailbox_history_id := history_id,
                    mailbox_watch_expiration := Some (expiration_ms * 1000)\<rparr>] @ after)"
proof -
  define a where "a = dict_get renewal_request ''account_id''"
  have converted: "fromtimestamp_ms w expiration_ms =
                     Inr (expiration_ms * 1000 + utc_offset w (expiration_ms div 1000) * 1000000)"
    using assms(7,5,6) by (rule fromtimestamp_ms_exact)
  have matched: "update_where a row"
    using assms(13,14,15) by (simp add: update_where_def sql_eq_def a_def)
  have others: "\<forall>r\<in>set (before @ after). \<not> update_where a r"
  proof
    fix r
    assume "r \<in> set (before @ after)"
    with assms(16) have "mailbox_account_id r \<noteq> a \<or> \<not> mailbox_is_active r"
      unfolding a_def by (rule bspec)
    then show "\<not> update_where a r"
      by (auto simp add: update_where_def sql_eq_def)
  qed
  have written: "fst (renewal_worker_function w event s) = Inr ()
       \<and> gmail_mailbox_watches (snd (renewal_worker_function w event s)) =
           before @
           [row\<lparr>mailbox_history_id := history_id,
                 mailbox_watch_expiration :=
                   Some (expiration_ms * 1000
                         + utc_offset w (expiration_ms div 1000) * 1000000)\<rparr>] @ after
       \<and> commits (snd (renewal_worker_function w event s)) = commits s + 1"
    by (rule renewal_writes [where event = event,
                             OF assms(1,2,3,4) converted assms(8,9,10,11,12)
                                matched [unfolded a_def] others [unfolded a_def]])
  show ?thesis
  proof (intro conjI impI)
    show "fst (renewal_worker_function w event s) = Inr ()"
      using written by (rule conjunct1)
    show "gmail_mailbox_watches (snd (renewal_worker_function w event s)) =
           before @
           [row\<lparr>mailbox_history_id := history_id,
                 mailbox_watch_expiration :=
                   Some (expiration_ms * 1000
                         + utc_offset w (expiration_ms div 1000) * 1000000)\<rparr>] @ after"
      using written by (rule conjunct1 [OF conjunct2])
    show "commits (snd (renewal_worker_function w event s)) = commits s + 1"
      using written by (rule conjunct2 [OF conjunct2])
  next
    assume "utc_offset w (expiration_ms div 1000) = 0"
    then show "gmail_mailbox_watches (snd (renewal_worker_function w event s)) =
              before @
              [row\<lparr>mailbox_history_id := history_id,
                    mailbox_watch_expiration := Some (expiration_ms * 1000)\<rparr>] @ after"
      using written by simp
  qed
qed

theorem renewal_updates_the_row_witness:
  "fst (renewal_worker_function example_world (deliver (JObj example_request)) shared_system) = Inr ()
   \<and> gmail_mailbox_watches
        (snd (renewal_worker_function example_world (deliver (JObj example_request)) shared_system)) =
       [mailbox_row ''A1'' ''50'' False,
        mailbox_row ''A2'' ''70'' True,
        (mailbox_row ''A1'' ''100'' True)
          \<lparr>mailbox_history_id := JStr ''999'',
           mailbox_watch_expiration := Some 1700604800000000\<rparr>]
   \<and> commits
        (snd (renewal_worker_function example_world (deliver (JObj example_request)) shared_system)) = 1"
proof -
  have renewed: "fst (renew_gmail_watch example_world (dict_get example_request ''access_token'')
                   (dict_get example_request ''refresh_token'') shared_system) =
                 Renewed (JStr ''999'') (JStr ''1700604800000'')"
    by (rule example_renewed)
  have table: "gmail_mailbox_watches shared_system =
                 [mailbox_row ''A1'' ''50'' False, mailbox_row ''A2'' ''70'' True]
                 @ [mailbox_row ''A1'' ''100'' True] @ []"
    by (simp add: shared_system_def example_system_def)
  have "fst (renewal_worker_function example_world (deliver (JObj example_request))
               shared_system) = Inr ()
       \<and> gmail_mailbox_watches (snd (renewal_worker_function example_world
            (deliver (JObj example_request)) shared_system)) =
           [mailbox_row ''A1'' ''50'' False, mailbox_row ''A2'' ''70'' True] @
           [(mailbox_row ''A1'' ''100'' True)
              \<lparr>mailbox_history_id := JStr ''999'',
               mailbox_watch_expiration :=
                 Some (1700604800000 * 1000
                       + utc_offset example_world (1700604800000 div 1000) * 1000000)\<rparr>] @ []
       \<and> commits (snd (renewal_worker_function example_world
            (deliver (JObj example_request)) shared_system)) = commits shared_system + 1
       \<and> (utc_offset example_world (1700604800000 div 1000) = 0 \<longrightarrow>
            gmail_mailbox_watches (snd (renewal_worker_function example_world
              (deliver (JObj example_request)) shared_system)) =
              [mailbox_row ''A1'' ''50'' False, mailbox_row ''A2'' ''70'' True] @
              [(mailbox_row ''A1'' ''100'' True)
                 \<lparr>mailbox_history_id := JStr ''999'',
                  mailbox_watch_expiration := Some (1700604800000 * 1000)\<rparr>] @ [])"
    by (rule renewal_updates_the_row
               [where renewal_request = example_request, OF _ _ renewed _ _ _ _ _ _ _ _ table])
       (simp_all add: dict_get_def deliver_def required_fields_def example_request_def
          example_world_def decimal_def getenv_def example_environ_def mailbox_row_def)
  then show ?thesis
    by (simp add: example_world_def shared_system_def example_system_def)
qed


subsection \<open>What a renewal depends on\<close>

text \<open>
  The functions of the Worker read the state without looking at the log: started in two
  states with the same effects they return the same result and end in states with the
  same effects.
\<close>

lemma same_effects_logger:
  "same_effects s t \<Longrightarrow> same_effects (logger l m a s) (logger l' m' a' t)"
  by (simp add: same_effects_def logger_def)

lemma same_effects_renew_try:
  "same_effects s t \<Longrightarrow>
   same_effects (snd (renew_gmail_watch_try w a r s)) (snd (renew_gmail_watch_try w a r t))"
  by (simp add: renew_gmail_watch_try_def Let_def same_effects_def logger_def
        split: option.splits sum.splits)

lemma same_effects_renew:
  assumes "same_effects s t"
  shows "same_effects (snd (renew_gmail_watch w a r s)) (snd (renew_gmail_watch w a r t))"
proof -
  have "fst (renew_gmail_watch_try w a r s) = fst (renew_gmail_watch_try w a r t)"
    by (rule renew_gmail_watch_try_result)
  then show ?thesis
    using same_effects_renew_try [OF assms, of w a r]
    by (simp add: renew_gmail_watch_snd same_effects_logger split: sum.splits exn.splits)
qed

lemma same_effects_update_with_connection:
  "same_effects s t \<Longrightarrow>
   fst (update_with_connection w a h x s) = fst (update_with_connection w a h x t)
   \<and> same_effects (snd (update_with_connection w a h x s)) (snd (update_with_connection w a h x t))"
  by (simp add: update_with_connection_def same_effects_def logger_def
        split: option.splits sum.splits)

lemma same_effects_update:
  assumes "same_effects s t"
  shows "fst (update_watch_in_database w a h x s) = fst (update_watch_in_database w a h x t)
   \<and> same_effects (snd (update_watch_in_database w a h x s))
        (snd (update_watch_in_database w a h x t))"
proof -
  have c: "same_effects (s\<lparr>connections := connections s + 1\<rparr>) (t\<lparr>connections := connections t + 1\<rparr>)"
    using assms by (simp add: same_effects_def)
  obtain r1 s1 where 1: "update_with_connection w a h x (s\<lparr>connections := connections s + 1\<rparr>) = (r1, s1)"
    by force
  obtain r2 t1 where 2: "update_with_connection w a h x (t\<lparr>connections := connections t + 1\<rparr>) = (r2, t1)"
    by force
  have "r1 = r2" "same_effects s1 t1"
    using same_effects_update_with_connection [OF c, of w a h x] 1 2 by simp_all
  then show ?thesis
    using assms 1 2
    by (auto simp add: update_watch_in_database_def Let_def same_effects_def logger_def
        split: option.splits sum.splits)
qed


lemma renew_gmail_watch_try_provider_calls:
  "provider_calls (snd (renew_gmail_watch_try w a r s)) =
     provider_calls s @
       (if truthy (getenv w ''GCP_PROJECT_ID'') \<and> truthy (getenv w ''GOOGLE_CLIENT_ID'')
           \<and> truthy (getenv w ''GOOGLE_CLIENT_SECRET'') \<and> build_error w = None
        then [gmail_watch_call w a r] else [])"
  by (simp add: renew_gmail_watch_try_def Let_def logger_def split: option.splits sum.splits)

lemma renew_gmail_watch_provider_calls:
  "provider_calls (snd (renew_gmail_watch w a r s)) =
     provider_calls s @
       (if truthy (getenv w ''GCP_PROJECT_ID'') \<and> truthy (getenv w ''GOOGLE_CLIENT_ID'')
           \<and> truthy (getenv w ''GOOGLE_CLIENT_SECRET'') \<and> build_error w = None
        then [gmail_watch_call w a r] else [])"
  using renew_gmail_watch_try_provider_calls [of w a r s]
  by (simp add: renew_gmail_watch_snd logger_def split: sum.splits exn.splits)

lemma renew_and_update_cases:
  assumes "missing_field d required_fields = None"
  shows "renew_and_update w d s =
     (case fst (renew_gmail_watch w (dict_get d ''access_token'') (dict_get d ''refresh_token'') s) of
        Renewed h x \<Rightarrow>
          (case update_watch_in_database w (dict_get d ''account_id'') h x
                   (snd (renew_gmail_watch w (dict_get d ''access_token'')
                           (dict_get d ''refresh_token'') s)) of
              (Inl e, s2) \<Rightarrow> (Inl e, s2)
            | (Inr u, s2) \<Rightarrow>
                (Inr (), logger INFO ''Successfully renewed Gmail watch for user {}''
                           [dict_get d ''user_id''] s2))
      | NotRenewed err \<Rightarrow>
          (Inr (),
           logger ERROR ''Failed to renew Gmail watch for user {}: {}'' [dict_get d ''user_id'', JStr err]
             (snd (renew_gmail_watch w (dict_get d ''access_token'') (dict_get d ''refresh_token'') s))))"
proof (cases "fst (renew_gmail_watch w (dict_get d ''access_token'') (dict_get d ''refresh_token'') s)")
  case (Renewed h x)
  then show ?thesis by (simp add: renew_and_update_Renewed [OF assms])
next
  case (NotRenewed err)
  then show ?thesis by (simp add: renew_and_update_NotRenewed [OF assms])
qed

lemma renew_and_update_provider_calls:
  assumes "missing_field d required_fields = None"
  shows "provider_calls (snd (renew_and_update w d s)) =
           provider_calls (snd (renew_gmail_watch w (dict_get d ''access_token'')
                                  (dict_get d ''refresh_token'') s))"
  by (simp add: renew_and_update_cases [OF assms] logger_def update_watch_in_database_frame
        split: renewal_result.splits prod.splits sum.splits)
     (metis snd_conv update_watch_in_database_frame(3))+

lemma same_effects_renew_and_update:
  assumes "missing_field d1 required_fields = None"
    and "missing_field d2 required_fields = None"
    and "dict_get d1 ''access_token'' = dict_get d2 ''access_token''"
    and "dict_get d1 ''refresh_token'' = dict_get d2 ''refresh_token''"
    and "dict_get d1 ''account_id'' = dict_get d2 ''account_id''"
    and "same_effects s t"
  shows "fst (renew_and_update w d1 s) = fst (renew_and_update w d2 t)
       \<and> same_effects (snd (renew_and_update w d1 s)) (snd (renew_and_update w d2 t))"
proof -
  define a where "a = dict_get d2 ''access_token''"
  define r where "r = dict_get d2 ''refresh_token''"
  define acct where "acct = dict_get d2 ''account_id''"
  have res: "fst (renew_gmail_watch w a r s) = fst (renew_gmail_watch w a r t)"
    by (rule renew_gmail_watch_result)
  have eff: "same_effects (snd (renew_gmail_watch w a r s)) (snd (renew_gmail_watch w a r t))"
    using assms(6) by (rule same_effects_renew)
  show ?thesis
  proof (cases "fst (renew_gmail_watch w a r t)")
    case (NotRenewed err)
    then show ?thesis
      using res eff
      by (simp add: renew_and_update_cases assms(1-5) same_effects_logger
            flip: a_def r_def acct_def)
  next
    case (Renewed h x)
    obtain r1 s1 where 1: "update_watch_in_database w acct h x (snd (renew_gmail_watch w a r s)) = (r1, s1)"
      by force
    obtain r2 t1 where 2: "update_watch_in_database w acct h x (snd (renew_gmail_watch w a r t)) = (r2, t1)"
      by force
    have "r1 = r2" "same_effects s1 t1"
      using same_effects_update [OF eff, of w acct h x] 1 2 by simp_all
    then show ?thesis
      using res Renewed 1 2
      by (simp add: renew_and_update_cases assms(1-5) same_effects_logger
            flip: a_def r_def acct_def split: sum.splits)
  qed
qed

text \<open>
  Claim C9. Two messages that have the five required fields and agree on \<^verbatim>\<open>access_token\<close>,
  \<^verbatim>\<open>refresh_token\<close> and \<^verbatim>\<open>account_id\<close> lead, in the same world and from the same state, to
  the same return value and to states that differ in the log at most: the same provider
  calls, the same tables, connections and commits. The one provider call (made when the
  configuration is complete and \<^verbatim>\<open>build\<close> succeeds) is built from the two tokens and the
  configuration; its body is the INBOX label, the action \<^verbatim>\<open>include\<close> and, when a topic is
  configured, the topic name. The message's \<^verbatim>\<open>watch_id\<close>, \<^verbatim>\<open>email\<close> and \<^verbatim>\<open>user_id\<close> appear
  nowhere in it.
\<close>

theorem renewal_reads_tokens_and_account_only:
  assumes "event1 ''data'' = Some (Encodes (JObj request1))"
    and "event2 ''data'' = Some (Encodes (JObj request2))"
    and "\<forall>f\<in>set required_fields. map_of request1 f \<noteq> None"
    and "\<forall>f\<in>set required_fields. map_of request2 f \<noteq> None"
    and "dict_get request1 ''access_token'' = dict_get request2 ''access_token''"
    and "dict_get request1 ''refresh_token'' = dict_get request2 ''refresh_token''"
    and "dict_get request1 ''account_id'' = dict_get request2 ''account_id''"
  shows "fst (renewal_worker_function w event1 s) = fst (renewal_worker_function w event2 s)
       \<and> same_effects (snd (renewal_worker_function w event1 s))
            (snd (renewal_worker_function w event2 s))
       \<and> provider_calls (snd (renewal_worker_function w event1 s)) =
           provider_calls s @
             (if truthy (getenv w ''GCP_PROJECT_ID'') \<and> truthy (getenv w ''GOOGLE_CLIENT_ID'')
                 \<and> truthy (getenv w ''GOOGLE_CLIENT_SECRET'') \<and> build_error w = None
              then [\<lparr>call_credentials =
                       \<lparr>cred_token = dict_get request1 ''access_token'',
                        cred_refresh_token = dict_get request1 ''refresh_token'',
                        cred_token_uri = ''https://oauth2.googleapis.com/token'',
                        cred_client_id = getenv w ''GOOGLE_CLIENT_ID'',
                        cred_client_secret = getenv w ''GOOGLE_CLIENT_SECRET'',
                        cred_scopes = [''https://www.googleapis.com/auth/gmail.readonly'',
                                       ''https://www.googleapis.com/auth/gmail.send'']\<rparr>,
                     call_userId = ''me'',
                     call_body =
                       \<lparr>labelIds = [''INBOX''],
                        labelFilterAction = ''include'',
                        topicName =
                          (if truthy (getenv w ''GCP_PUB_SUB_EMAIL_REPLY_TOPIC_ID'')
                           then Some (''projects/'' @ fmt (getenv w ''GCP_PROJECT_ID'') @ ''/topics/''
                                      @ fmt (getenv w ''GCP_PUB_SUB_EMAIL_REPLY_TOPIC_ID''))
                           else None)\<rparr>\<rparr>]
              else [])"
proof -
  define s1 where "s1 = logger INFO ''Processing Gmail watch renewal for user {} ({})''
               [dict_get request1 ''user_id'', dict_get request1 ''email''] s"
  define s2 where "s2 = logger INFO ''Processing Gmail watch renewal for user {} ({})''
               [dict_get request2 ''user_id'', dict_get request2 ''email''] s"
  have p1: "missing_field request1 required_fields = None"
    and p2: "missing_field request2 required_fields = None"
    using assms(3,4) by (simp_all add: missing_field_None_iff)
  have t1: "renewal_worker_function_try w event1 s = renew_and_update w request1 s1"
    unfolding s1_def by (rule worker_try_present [where event = event1, OF assms(1) p1])
  have t2: "renewal_worker_function_try w event2 s = renew_and_update w request2 s2"
    unfolding s2_def by (rule worker_try_present [where event = event2, OF assms(2) p2])
  have "same_effects s1 s2"
    by (simp add: s1_def s2_def same_effects_def logger_def)
  then have same: "fst (renew_and_update w request1 s1) = fst (renew_and_update w request2 s2)
       \<and> same_effects (snd (renew_and_update w request1 s1)) (snd (renew_and_update w request2 s2))"
    by (rule same_effects_renew_and_update [OF p1 p2 assms(5,6,7)])
  have calls: "provider_calls (snd (renewal_worker_function w event1 s)) =
                 provider_calls (snd (renew_and_update w request1 s1))"
    by (simp add: worker_snd t1 logger_def split: sum.splits)
  have "provider_calls (snd (renew_and_update w request1 s1)) =
          provider_calls s @
            (if truthy (getenv w ''GCP_PROJECT_ID'') \<and> truthy (getenv w ''GOOGLE_CLIENT_ID'')
                \<and> truthy (getenv w ''GOOGLE_CLIENT_SECRET'') \<and> build_error w = None
             then [gmail_watch_call w (dict_get request1 ''access_token'')
                     (dict_get request1 ''refresh_token'')]
             else [])"
    by (simp add: renew_and_update_provider_calls [OF p1] renew_gmail_watch_provider_calls
          s1_def logger_def)
  moreover have "fst (renewal_worker_function w event1 s) = Inr ()"
    "fst (renewal_worker_function w event2 s) = Inr ()"
    by (simp_all add: renewal_worker_function_def split: prod.splits sum.splits)
  ultimately show ?thesis
    using same calls
    by (simp add: worker_snd t1 t2 same_effects_logger gmail_watch_call_def
          gmail_credentials_def gmail_watch_request_def topic_name_def split: sum.splits)
qed

theorem renewal_reads_tokens_and_account_only_witness:
  "same_effects
     (snd (renewal_worker_function example_world (deliver (JObj example_request)) example_system))
     (snd (renewal_worker_function example_world (deliver (JObj example_request_other))
             example_system))
   \<and> map call_body
         (provider_calls
            (snd (renewal_worker_function example_world (deliver (JObj example_request))
                    example_system))) =
       [\<lparr>labelIds = [''INBOX''], labelFilterAction = ''include'', topicName = None\<rparr>]"
  using renewal_reads_tokens_and_account_only
          [of "deliver (JObj example_request)" example_request
              "deliver (JObj example_request_other)" example_request_other
              example_world example_system]
  by (simp add: deliver_def required_fields_def example_request_def example_request_other_def
        dict_get_def example_world_def example_environ_def getenv_def example_system_def)

subsection \<open>The rows the Scanner selects\<close>

lemma select_where_iff:
  "select_where thr r \<longleftrightarrow>
     watches_is_active r \<and> (\<exists>t. watches_expiration_time r = Some t \<and> t \<le> thr)"
  by (auto simp add: select_where_def split: option.splits)

lemma mset_selected_rows:
  "mset (selected_rows thr rows) =
     filter_mset (\<lambda>r. watches_is_active r \<and> (\<exists>t. watches_expiration_time r = Some t \<and> t \<le> thr))
       (mset rows)"
proof -
  have "select_where thr = (\<lambda>r. watches_is_active r \<and> (\<exists>t. watches_expiration_time r = Some t \<and> t \<le> thr))"
    by (rule ext) (rule select_where_iff)
  then show ?thesis
    by (simp add: selected_rows_def)
qed

lemma sorted_selected_rows:
  "sorted_wrt (\<lambda>a b. \<exists>ta tb. watches_expiration_time a = Some ta
                         \<and> watches_expiration_time b = Some tb \<and> ta \<le> tb)
     (selected_rows thr rows)"
proof -
  have "sorted (map order_by (selected_rows thr rows))"
    by (simp add: selected_rows_def)
  then have keys: "sorted_wrt (\<lambda>a b. order_by a \<le> order_by b) (selected_rows thr rows)"
    by (simp add: sorted_map)
  have some: "\<exists>t. watches_expiration_time r = Some t" if "r \<in> set (selected_rows thr rows)" for r
    using that by (auto simp: selected_rows_def select_where_iff)
  show ?thesis
  proof (rule sorted_wrt_mono_rel [OF _ keys])
    fix x y
    assume "x \<in> set (selected_rows thr rows)" and "y \<in> set (selected_rows thr rows)"
      and "order_by x \<le> order_by y"
    then show "\<exists>ta tb. watches_expiration_time x = Some ta
                 \<and> watches_expiration_time y = Some tb \<and> ta \<le> tb"
      using some [of x] some [of y] by (auto simp: order_by_def)
  qed
qed

text \<open>
  Claim C2. When the connection opens and the query runs, \<open>get_expiring_watches\<close> returns
  one dict per selected row, in the order of the selected rows; the selected rows are,
  with their multiplicities, the rows of the table that are active and whose expiration is
  not NULL and at most \<open>now + hours_ahead\<close> hours (\<open>now\<close> the first reading of the clock);
  they come in ascending order of expiration; and the default of \<open>hours_ahead\<close>, which
  \<open>watch_query_function\<close> uses, is two hours.
\<close>

theorem get_expiring_watches_selects:
  assumes "connect_error w database_url = None"
    and "select_error w = None"
  shows "fst (get_expiring_watches w database_url hours_ahead s) =
           Inr (map (\<lambda>r. \<lparr>user_id = watches_user_id r,
                            email = watches_email r,
                            watch_id = watches_watch_id r,
                            expiration_time =
                              (case watches_expiration_time r of
                                 Some t \<Rightarrow> JStr (isoformat w t)
                               | None \<Rightarrow> JNull)\<rparr>)
                  (selected_rows (clock w 0 + hours_ahead * 3600000000) (gmail_watches s)))
       \<and> mset (selected_rows (clock w 0 + hours_ahead * 3600000000) (gmail_watches s)) =
           filter_mset
             (\<lambda>r. watches_is_active r
                   \<and> (\<exists>t. watches_expiration_time r = Some t
                            \<and> t \<le> clock w 0 + hours_ahead * 3600000000))
             (mset (gmail_watches s))
       \<and> sorted_wrt (\<lambda>a b. \<exists>ta tb. watches_expiration_time a = Some ta
                               \<and> watches_expiration_time b = Some tb \<and> ta \<le> tb)
           (selected_rows (clock w 0 + hours_ahead * 3600000000) (gmail_watches s))
       \<and> timedelta_hours hours_ahead_default = 2 * 60 * 60 * 1000000"
proof (intro conjI)
  show "fst (get_expiring_watches w database_url hours_ahead s) =
           Inr (map (\<lambda>r. \<lparr>user_id = watches_user_id r,
                            email = watches_email r,
                            watch_id = watches_watch_id r,
                            expiration_time =
                              (case watches_expiration_time r of
                                 Some t \<Rightarrow> JStr (isoformat w t)
                               | None \<Rightarrow> JNull)\<rparr>)
                  (selected_rows (clock w 0 + hours_ahead * 3600000000) (gmail_watches s)))"
    using assms
    by (simp add: get_expiring_watches_def Let_def fetchall_def timedelta_hours_def o_def)
next
  show "timedelta_hours hours_ahead_default = 2 * 60 * 60 * 1000000"
    by (simp add: timedelta_hours_def hours_ahead_default_def)
qed (simp_all only: mset_selected_rows sorted_selected_rows)

theorem get_expiring_watches_selects_witness:
  "fst (get_expiring_watches example_world (Some ''postgresql://store'') 2 busy_system) =
     Inr [\<lparr>user_id = JStr ''U1'', email = JStr ''u1@example.com'', watch_id = JStr ''W1'',
            expiration_time = JStr ''2023-11-14T22:13:20''\<rparr>,
          \<lparr>user_id = JStr ''U2'', email = JStr ''u2@example.com'', watch_id = JStr ''W2'',
            expiration_time = JStr ''2023-11-14T22:13:20''\<rparr>]"
proof -
  have "selected_rows (now + 2 * 3600000000) (gmail_watches busy_system) =
          [watch_row ''1'' (Some (now + 1800000000)) True,
           watch_row ''2'' (Some (now + 3600000000)) True]"
    by (simp add: selected_rows_def busy_system_def select_where_def watch_row_def order_by_def
          now_def)
  then show ?thesis
    using get_expiring_watches_selects
            [of example_world "Some ''postgresql://store''" 2 busy_system, THEN conjunct1]
    by (simp add: example_world_def watch_row_def)
qed

subsection \<open>Publishing\<close>

text \<open>
  The loop acknowledges one message per watch until a publish fails: when it returns, the
  count is the number of watches; when it raises, fewer messages than watches were
  acknowledged.
\<close>

lemma publish_loop_result:
  "fst (publish_loop w tp ws k s) = fst (publish_loop w tp ws k t)"
  by (induction ws arbitrary: k s t) (simp_all add: Let_def split: sum.splits)

lemma publish_loop_Inr:
  "publish_loop w tp ws k s = (Inr n, s') \<Longrightarrow>
   n = k + length ws \<and> length (published s') = length (published s) + length ws"
proof (induction ws arbitrary: k s)
  case Nil
  then show ?case by simp
next
  case (Cons a ws)
  then show ?case
    by (fastforce simp add: Let_def logger_def split: sum.splits)
qed

lemma publish_loop_Inl:
  "publish_loop w tp ws k s = (Inl e, s') \<Longrightarrow>
   length (published s') < length (published s) + length ws"
proof (induction ws arbitrary: k s)
  case Nil
  then show ?case by simp
next
  case (Cons a ws)
  then show ?case
    by (fastforce simp add: Let_def logger_def split: sum.splits)
qed

lemma publish_loop_frame:
  "gmail_watches (snd (publish_loop w tp ws k s)) = gmail_watches s
   \<and> gmail_mailbox_watches (snd (publish_loop w tp ws k s)) = gmail_mailbox_watches s
   \<and> provider_calls (snd (publish_loop w tp ws k s)) = provider_calls s
   \<and> connections (snd (publish_loop w tp ws k s)) = connections s
   \<and> closed (snd (publish_loop w tp ws k s)) = closed s
   \<and> commits (snd (publish_loop w tp ws k s)) = commits s"
  by (induction ws arbitrary: k s) (simp_all add: Let_def logger_def split: sum.splits)

lemma publish_renewal_messages_cases:
  "publish_renewal_messages w p q ws s =
     (case publisher_error w of
        Some e \<Rightarrow> (Inl e, logger ERROR ''Pub/Sub publish error: {}'' [JStr (str_exn e)] s)
      | None \<Rightarrow>
          (case fst (publish_loop w (publisher_topic_path p q) ws 0 s) of
             Inl e \<Rightarrow> (Inl e, logger ERROR ''Pub/Sub publish error: {}'' [JStr (str_exn e)]
                                (snd (publish_loop w (publisher_topic_path p q) ws 0 s)))
           | Inr n \<Rightarrow> (Inr n, snd (publish_loop w (publisher_topic_path p q) ws 0 s))))"
  by (cases "publish_loop w (publisher_topic_path p q) ws 0 s")
     (simp add: publish_renewal_messages_def split: option.splits sum.splits)

lemma publish_renewal_messages_result:
  "fst (publish_renewal_messages w p q ws s) = fst (publish_renewal_messages w p q ws t)"
  using publish_loop_result [of w "publisher_topic_path p q" ws 0 s t]
  by (simp add: publish_renewal_messages_cases split: option.splits sum.splits)

lemma publish_renewal_messages_Inr:
  assumes "publish_renewal_messages w p q ws s = (Inr n, s')"
  shows "n = length ws \<and> length (published s') = length (published s) + length ws"
proof -
  have "publish_loop w (publisher_topic_path p q) ws 0 s = (Inr n, s')"
    using assms
    by (cases "publish_loop w (publisher_topic_path p q) ws 0 s")
       (simp add: publish_renewal_messages_cases split: option.splits sum.splits)
  then show ?thesis
    using publish_loop_Inr by fastforce
qed

lemma publish_renewal_messages_Inl:
  assumes "publish_renewal_messages w p q ws s = (Inl e, s')" and "ws \<noteq> []"
  shows "length (published s') < length (published s) + length ws"
proof (cases "publisher_error w")
  case (Some e')
  then show ?thesis
    using assms by (auto simp add: publish_renewal_messages_cases logger_def)
next
  case None
  obtain r t where l: "publish_loop w (publisher_topic_path p q) ws 0 s = (r, t)"
    by force
  then obtain e' where "r = Inl e'" and "published s' = published t"
    using assms(1) None
    by (auto simp add: publish_renewal_messages_cases logger_def split: sum.splits)
  then show ?thesis
    using publish_loop_Inl l by fastforce
qed

lemma publish_renewal_messages_frame:
  "gmail_watches (snd (publish_renewal_messages w p q ws s)) = gmail_watches s
   \<and> gmail_mailbox_watches (snd (publish_renewal_messages w p q ws s)) = gmail_mailbox_watches s
   \<and> provider_calls (snd (publish_renewal_messages w p q ws s)) = provider_calls s
   \<and> connections (snd (publish_renewal_messages w p q ws s)) = connections s
   \<and> closed (snd (publish_renewal_messages w p q ws s)) = closed s
   \<and> commits (snd (publish_renewal_messages w p q ws s)) = commits s"
  using publish_loop_frame [of w "publisher_topic_path p q" ws 0 s]
  by (simp add: publish_renewal_messages_cases logger_def split: option.splits sum.splits)


lemma get_expiring_watches_frame:
  "gmail_watches (snd (get_expiring_watches w u h s)) = gmail_watches s
   \<and> published (snd (get_expiring_watches w u h s)) = published s"
  by (simp add: get_expiring_watches_def Let_def logger_def split: option.splits)

lemma get_expiring_watches_Inr:
  "get_expiring_watches w u h s = (Inr ws, s') \<Longrightarrow>
   ws = map (watch_dict w) (fetchall (clock w 0 + timedelta_hours h) (gmail_watches s))
   \<and> connect_error w u = None \<and> select_error w = None
   \<and> published s' = published s"
  by (auto simp add: get_expiring_watches_def Let_def logger_def split: option.splits)

lemma length_fetched:
  "length (map (watch_dict w) (fetchall (clock w 0 + timedelta_hours hours_ahead_default)
                                  (gmail_watches s))) = length (eligible w s)"
  by (simp add: fetchall_def eligible_def)

lemma try_Inr:
  assumes "watch_query_function_try w s = (Inr r, s')"
  shows "\<exists>message. r = success_response message (int (length (eligible w s)))
           \<and> length (published s') = length (published s) + length (eligible w s)"
proof -
  define s0 where "s0 = logger INFO ''Gmail watch query function triggered by Cloud Scheduler'' [] s"
  have s0: "gmail_watches s0 = gmail_watches s" "published s0 = published s"
    by (simp_all add: s0_def logger_def)
  obtain x s1 where g: "get_expiring_watches w (getenv w ''DATABASE_URL'') hours_ahead_default s0 = (x, s1)"
    by force
  from assms g obtain ws where x: "x = Inr ws"
    by (cases x) (auto simp add: watch_query_function_try_def Let_def s0_def split: if_splits)
  have ws: "ws = map (watch_dict w) (fetchall (clock w 0 + timedelta_hours hours_ahead_default)
                                       (gmail_watches s))"
    and p1: "published s1 = published s"
    using get_expiring_watches_Inr [OF g [unfolded x]] s0 by simp_all
  have len: "length ws = length (eligible w s)"
    unfolding ws by (rule length_fetched)
  show ?thesis
  proof (cases "ws = []")
    case True
    then show ?thesis
      using assms g x len p1
      by (auto simp add: watch_query_function_try_def Let_def s0_def logger_def split: if_splits)
  next
    case False
    obtain y s2 where p: "publish_renewal_messages w (getenv w ''GCP_PROJECT_ID'')
                 (getenv w ''GCP_PUB_SUB_GMAIL_WATCH_RENEWAL_TOPIC_ID'') ws s1 = (y, s2)"
      by force
    from assms g x False p obtain n where y: "y = Inr n"
      by (cases y) (auto simp add: watch_query_function_try_def Let_def s0_def split: if_splits)
    have "n = length ws" "length (published s2) = length (published s1) + length ws"
      using publish_renewal_messages_Inr [OF p [unfolded y]] by simp_all
    then show ?thesis
      using assms g x False p y len p1
      by (auto simp add: watch_query_function_try_def Let_def s0_def logger_def split: if_splits)
  qed
qed


lemma watch_query_function_Inr:
  "watch_query_function_try w s = (Inr r, s') \<Longrightarrow> watch_query_function w s = (Inr r, s')"
  by (simp add: watch_query_function_def)

lemma watch_query_function_Inl:
  "watch_query_function_try w s = (Inl e, s') \<Longrightarrow>
   watch_query_function w s =
     (Inr (failure_response (str_exn e)),
      logger ERROR ''Error in watch query function: {}'' [JStr (str_exn e)] s')"
  by (simp add: watch_query_function_def)

subsection \<open>The count the Scanner reports\<close>





subsection \<open>The response of the Scanner\<close>

lemma scanner_shape:
  "\<exists>r. fst (watch_query_function w s) = Inr r
      \<and> ((\<exists>message n. r = success_response message n) \<or> (\<exists>error. r = failure_response error))"
proof -
  obtain x s' where t: "watch_query_function_try w s = (x, s')"
    by force
  show ?thesis
  proof (cases x)
    case (Inl e)
    then show ?thesis
      using watch_query_function_Inl [of w s e s'] t by auto
  next
    case (Inr r)
    then show ?thesis
      using watch_query_function_Inr [of w s r s'] try_Inr [of w s r s'] t by auto
  qed
qed

lemma scanner_nothing_eligible:
  assumes "scanner_configured w"
    and "connect_error w (getenv w ''DATABASE_URL'') = None"
    and "select_error w = None"
    and "eligible w s = []"
  shows "fst (watch_query_function w s) = Inr (success_response ''No expiring watches found'' 0)
       \<and> published (snd (watch_query_function w s)) = published s"
proof -
  have "fetchall (clock w 0 + timedelta_hours hours_ahead_default) (gmail_watches s) = []"
    using assms(4) by (simp add: fetchall_def eligible_def)
  then show ?thesis
    using assms(1,2,3)
    by (simp add: watch_query_function_def watch_query_function_try_def get_expiring_watches_def
          scanner_configured_def Let_def logger_def)
qed

lemma scanner_unconfigured:
  assumes "\<not> scanner_configured w"
  shows "fst (watch_query_function w s) =
           Inr (failure_response ''Missing required environment variables'')"
  using assms
  by (simp add: watch_query_function_def watch_query_function_try_def scanner_configured_def
        Let_def)

lemma scanner_connect_error:
  assumes "scanner_configured w"
    and "connect_error w (getenv w ''DATABASE_URL'') = Some e"
  shows "fst (watch_query_function w s) = Inr (failure_response (str_exn e))"
  using assms
  by (simp add: watch_query_function_def watch_query_function_try_def get_expiring_watches_def
        scanner_configured_def Let_def)

lemma scanner_select_error:
  assumes "scanner_configured w"
    and "connect_error w (getenv w ''DATABASE_URL'') = None"
    and "select_error w = Some e"
  shows "fst (watch_query_function w s) = Inr (failure_response (str_exn e))"
  using assms
  by (simp add: watch_query_function_def watch_query_function_try_def get_expiring_watches_def
        scanner_configured_def Let_def)

lemma scanner_publish_error:
  assumes "scanner_configured w"
    and "connect_error w (getenv w ''DATABASE_URL'') = None"
    and "select_error w = None"
    and "eligible w s \<noteq> []"
    and "fst (publish_renewal_messages w (getenv w ''GCP_PROJECT_ID'')
                (getenv w ''GCP_PUB_SUB_GMAIL_WATCH_RENEWAL_TOPIC_ID'')
                (map (watch_dict w)
                   (fetchall (clock w 0 + timedelta_hours hours_ahead_default) (gmail_watches s)))
                s) = Inl e"
  shows "fst (watch_query_function w s) = Inr (failure_response (str_exn e))"
proof -
  define ws where "ws = map (watch_dict w)
                   (fetchall (clock w 0 + timedelta_hours hours_ahead_default) (gmail_watches s))"
  define s1 where "s1 = snd (get_expiring_watches w (getenv w ''DATABASE_URL'') hours_ahead_default
                    (logger INFO ''Gmail watch query function triggered by Cloud Scheduler'' [] s))"
  have g: "get_expiring_watches w (getenv w ''DATABASE_URL'') hours_ahead_default
             (logger INFO ''Gmail watch query function triggered by Cloud Scheduler'' [] s) =
           (Inr ws, s1)"
    using assms(2,3)
    by (simp add: s1_def ws_def get_expiring_watches_def Let_def logger_def)
  have ne: "ws \<noteq> []"
    using assms(4) by (simp add: ws_def fetchall_def eligible_def)
  have "fst (publish_renewal_messages w (getenv w ''GCP_PROJECT_ID'')
                (getenv w ''GCP_PUB_SUB_GMAIL_WATCH_RENEWAL_TOPIC_ID'') ws s1) = Inl e"
    using assms(5) publish_renewal_messages_result unfolding ws_def by metis
  then obtain s2 where "publish_renewal_messages w (getenv w ''GCP_PROJECT_ID'')
                (getenv w ''GCP_PUB_SUB_GMAIL_WATCH_RENEWAL_TOPIC_ID'') ws s1 = (Inl e, s2)"
    by (metis fst_conv surj_pair)
  then have "fst (watch_query_function_try w s) = Inl e"
    using assms(1) g ne
    by (simp add: watch_query_function_try_def scanner_configured_def Let_def)
  then show ?thesis
    by (cases "watch_query_function_try w s") (simp add: watch_query_function_def)
qed

lemma publish_loop_all_acknowledged:
  assumes "\<And>k message. \<exists>message_id. publish_outcome w k tp message = Inr message_id"
  shows "fst (publish_loop w tp ws k s) = Inr (k + length ws)"
proof (induction ws arbitrary: k s)
  case Nil
  then show ?case by simp
next
  case (Cons a ws)
  obtain message_id where
    "publish_outcome w k tp
       (JObj [(''user_id'', user_id a), (''email'', email a), (''watch_id'', watch_id a),
              (''action'', JStr ''renew_watch''),
              (''timestamp'', JStr (isoformat w (clock w (Suc k))))]) = Inr message_id"
    using assms by blast
  then show ?case
    using Cons.IH by (simp add: Let_def)
qed

lemma scanner_all_published:
  assumes "scanner_configured w"
    and "connect_error w (getenv w ''DATABASE_URL'') = None"
    and "select_error w = None"
    and "eligible w s \<noteq> []"
    and "publisher_error w = None"
    and "\<And>k message. \<exists>message_id.
           publish_outcome w k
             (''projects/'' @ fmt (getenv w ''GCP_PROJECT_ID'') @ ''/topics/''
                @ fmt (getenv w ''GCP_PUB_SUB_GMAIL_WATCH_RENEWAL_TOPIC_ID''))
             message = Inr message_id"
  shows "fst (watch_query_function w s) =
           Inr \<lparr>statusCode = 200,
                body = JObj [(''success'', JBool True),
                             (''message'',
                              JStr (''Published '' @ str_nat (length (eligible w s))
                                    @ '' renewal messages'')),
                             (''watches_processed'', JNum (int (length (eligible w s))))]\<rparr>
       \<and> length (published (snd (watch_query_function w s))) =
           length (published s) + length (eligible w s)"
proof -
  define ws where "ws = map (watch_dict w)
                   (fetchall (clock w 0 + timedelta_hours hours_ahead_default) (gmail_watches s))"
  define s1 where "s1 = snd (get_expiring_watches w (getenv w ''DATABASE_URL'') hours_ahead_default
                    (logger INFO ''Gmail watch query function triggered by Cloud Scheduler'' [] s))"
  define tp where "tp = publisher_topic_path (getenv w ''GCP_PROJECT_ID'')
                          (getenv w ''GCP_PUB_SUB_GMAIL_WATCH_RENEWAL_TOPIC_ID'')"
  have g: "get_expiring_watches w (getenv w ''DATABASE_URL'') hours_ahead_default
             (logger INFO ''Gmail watch query function triggered by Cloud Scheduler'' [] s) =
           (Inr ws, s1)"
    using assms(2,3)
    by (simp add: s1_def ws_def get_expiring_watches_def Let_def logger_def)
  have len: "length ws = length (eligible w s)"
    unfolding ws_def by (rule length_fetched)
  have ne: "ws \<noteq> []"
    using assms(4) len by auto
  have p1: "published s1 = published s"
    using get_expiring_watches_Inr [OF g] by (simp add: logger_def)
  have "fst (publish_loop w tp ws 0 s1) = Inr (0 + length ws)"
    using assms(6)
    by (intro publish_loop_all_acknowledged) (simp add: tp_def publisher_topic_path_def)
  then obtain s2 where loop: "publish_loop w tp ws 0 s1 = (Inr (length ws), s2)"
    by (metis add_0 fst_conv surj_pair)
  then have pub: "publish_renewal_messages w (getenv w ''GCP_PROJECT_ID'')
                (getenv w ''GCP_PUB_SUB_GMAIL_WATCH_RENEWAL_TOPIC_ID'') ws s1 = (Inr (length ws), s2)"
    using assms(5) by (simp add: publish_renewal_messages_def tp_def)
  have p2: "length (published s2) = length (published s1) + length ws"
    using publish_loop_Inr [OF loop] by simp
  have "watch_query_function_try w s =
          (Inr (success_response (''Published '' @ str_nat (length ws) @ '' renewal messages'')
                  (int (length ws))),
           logger INFO ''Published {} renewal messages'' [JNum (int (length ws))] s2)"
    using assms(1) g ne pub
    by (simp add: watch_query_function_try_def scanner_configured_def Let_def)
  then show ?thesis
    using p1 p2 len
    by (simp add: watch_query_function_def success_response_def logger_def)
qed

text \<open>
  Claim C7. \<open>watch_query_function\<close> always returns a response, and never an exception: either
  status 200 with a body of \<^verbatim>\<open>success: true\<close>, a \<^verbatim>\<open>message\<close> and \<^verbatim>\<open>watches_processed\<close>, or
  status 500 with a body of \<^verbatim>\<open>success: false\<close> and an \<^verbatim>\<open>error\<close> string. With nothing
  eligible the response is the 200 one with count 0 and nothing is published. With
  eligible rows and every publish acknowledged it is the 200 one with the number of
  eligible rows, and that many messages are published. A missing variable, a refused
  connection, a failed query and a failed publish each give status 500 with the text of
  that exception as \<^verbatim>\<open>error\<close>.
\<close>

theorem scanner_response:
  "(\<exists>r. fst (watch_query_function w s) = Inr r
       \<and> ((statusCode r = 200
            \<and> (\<exists>message n. body r = JObj [(''success'', JBool True),
                                          (''message'', JStr message),
                                          (''watches_processed'', JNum n)]))
          \<or> (statusCode r = 500
            \<and> (\<exists>error. body r = JObj [(''success'', JBool False), (''error'', JStr error)]))))
   \<and> (scanner_configured w
       \<and> connect_error w (getenv w ''DATABASE_URL'') = None
       \<and> select_error w = None
       \<and> eligible w s = []
      \<longrightarrow> fst (watch_query_function w s) =
            Inr \<lparr>statusCode = 200,
                 body = JObj [(''success'', JBool True),
                              (''message'', JStr ''No expiring watches found''),
                              (''watches_processed'', JNum 0)]\<rparr>
          \<and> published (snd (watch_query_function w s)) = published s)
   \<and> (scanner_configured w
       \<and> connect_error w (getenv w ''DATABASE_URL'') = None
       \<and> select_error w = None
       \<and> eligible w s \<noteq> []
       \<and> publisher_error w = None
       \<and> (\<forall>k message. \<exists>message_id.
             publish_outcome w k
               (''projects/'' @ fmt (getenv w ''GCP_PROJECT_ID'') @ ''/topics/''
                  @ fmt (getenv w ''GCP_PUB_SUB_GMAIL_WATCH_RENEWAL_TOPIC_ID''))
               message = Inr message_id)
      \<longrightarrow> fst (watch_query_function w s) =
            Inr \<lparr>statusCode = 200,
                 body = JObj [(''success'', JBool True),
                              (''message'',
                               JStr (''Published '' @ str_nat (length (eligible w s))
                                     @ '' renewal messages'')),
                              (''watches_processed'', JNum (int (length (eligible w s))))]\<rparr>
          \<and> length (published (snd (watch_query_function w s))) =
              length (published s) + length (eligible w s))
   \<and> (\<not> scanner_configured w
      \<longrightarrow> fst (watch_query_function w s) =
            Inr \<lparr>statusCode = 500,
                 body = JObj [(''success'', JBool False),
                              (''error'', JStr ''Missing required environment variables'')]\<rparr>)
   \<and> (scanner_configured w
       \<and> connect_error w (getenv w ''DATABASE_URL'') = Some e
      \<longrightarrow> fst (watch_query_function w s) =
            Inr \<lparr>statusCode = 500,
                 body = JObj [(''success'', JBool False), (''error'', JStr (str_exn e))]\<rparr>)
   \<and> (scanner_configured w
       \<and> connect_error w (getenv w ''DATABASE_URL'') = None
       \<and> select_error w = Some e
      \<longrightarrow> fst (watch_query_function w s) =
            Inr \<lparr>statusCode = 500,
                 body = JObj [(''success'', JBool False), (''error'', JStr (str_exn e))]\<rparr>)
   \<and> (scanner_configured w
       \<and> connect_error w (getenv w ''DATABASE_URL'') = None
       \<and> select_error w = None
       \<and> eligible w s \<noteq> []
       \<and> fst (publish_renewal_messages w (getenv w ''GCP_PROJECT_ID'')
                (getenv w ''GCP_PUB_SUB_GMAIL_WATCH_RENEWAL_TOPIC_ID'')
                (map (watch_dict w)
                   (fetchall (clock w 0 + timedelta_hours hours_ahead_default) (gmail_watches s)))
                s) = Inl e
      \<longrightarrow> fst (watch_query_function w s) =
            Inr \<lparr>statusCode = 500,
                 body = JObj [(''success'', JBool False), (''error'', JStr (str_exn e))]\<rparr>)"
proof (intro conjI impI)
  show "\<exists>r. fst (watch_query_function w s) = Inr r
       \<and> ((statusCode r = 200
            \<and> (\<exists>message n. body r = JObj [(''success'', JBool True),
                                          (''message'', JStr message),
                                          (''watches_processed'', JNum n)]))
          \<or> (statusCode r = 500
            \<and> (\<exists>error. body r = JObj [(''success'', JBool False), (''error'', JStr error)])))"
    using scanner_shape [of w s]
    by (auto simp add: success_response_def failure_response_def)
next
  assume "scanner_configured w
       \<and> connect_error w (getenv w ''DATABASE_URL'') = None
       \<and> select_error w = None
       \<and> eligible w s \<noteq> []
       \<and> publisher_error w = None
       \<and> (\<forall>k message. \<exists>message_id.
             publish_outcome w k
               (''projects/'' @ fmt (getenv w ''GCP_PROJECT_ID'') @ ''/topics/''
                  @ fmt (getenv w ''GCP_PUB_SUB_GMAIL_WATCH_RENEWAL_TOPIC_ID''))
               message = Inr message_id)"
  then have all: "fst (watch_query_function w s) =
            Inr \<lparr>statusCode = 200,
                 body = JObj [(''success'', JBool True),
                              (''message'',
                               JStr (''Published '' @ str_nat (length (eligible w s))
                                     @ '' renewal messages'')),
                              (''watches_processed'', JNum (int (length (eligible w s))))]\<rparr>
          \<and> length (published (snd (watch_query_function w s))) =
              length (published s) + length (eligible w s)"
    by (intro scanner_all_published) simp_all
  show "fst (watch_query_function w s) =
            Inr \<lparr>statusCode = 200,
                 body = JObj [(''success'', JBool True),
                              (''message'',
                               JStr (''Published '' @ str_nat (length (eligible w s))
                                     @ '' renewal messages'')),
                              (''watches_processed'', JNum (int (length (eligible w s))))]\<rparr>"
    using all by (rule conjunct1)
  show "length (published (snd (watch_query_function w s))) =
              length (published s) + length (eligible w s)"
    using all by (rule conjunct2)
qed (simp_all add: scanner_nothing_eligible scanner_unconfigured scanner_connect_error
       scanner_select_error scanner_publish_error success_response_def failure_response_def)


theorem scanner_response_witness:
  "fst (watch_query_function example_world idle_system) =
     Inr \<lparr>statusCode = 200,
          body = JObj [(''success'', JBool True),
                       (''message'', JStr ''No expiring watches found''),
                       (''watches_processed'', JNum 0)]\<rparr>
   \<and> published (snd (watch_query_function example_world idle_system)) = []
   \<and> fst (watch_query_function example_world busy_system) =
       Inr \<lparr>statusCode = 200,
            body = JObj [(''success'', JBool True),
                         (''message'', JStr ''Published 2 renewal messages''),
                         (''watches_processed'', JNum 2)]\<rparr>
   \<and> length (published (snd (watch_query_function example_world busy_system))) = 2
   \<and> fst (watch_query_function no_database_url_world example_system) =
       Inr \<lparr>statusCode = 500,
            body = JObj [(''success'', JBool False),
                         (''error'', JStr ''Missing required environment variables'')]\<rparr>
   \<and> fst (watch_query_function store_down_world example_system) =
       Inr \<lparr>statusCode = 500,
            body = JObj [(''success'', JBool False), (''error'', JStr ''connection refused'')]\<rparr>
   \<and> fst (watch_query_function query_fails_world example_system) =
       Inr \<lparr>statusCode = 500,
            body = JObj [(''success'', JBool False),
                         (''error'', JStr ''relation does not exist'')]\<rparr>
   \<and> fst (watch_query_function publish_fails_world busy_system) =
       Inr \<lparr>statusCode = 500,
            body = JObj [(''success'', JBool False), (''error'', JStr ''Deadline Exceeded'')]\<rparr>"
proof -
  have configured: "scanner_configured example_world" "scanner_configured store_down_world"
    "scanner_configured query_fails_world" "scanner_configured publish_fails_world"
    "\<not> scanner_configured no_database_url_world"
    by (simp_all add: scanner_configured_def getenv_def example_world_def example_environ_def
          store_down_world_def query_fails_world_def publish_fails_world_def
          no_database_url_world_def)
  have idle: "eligible example_world idle_system = []"
    by (simp add: eligible_def idle_system_def selected_rows_def)
  have rows: "selected_rows (now + 7200000000) (gmail_watches busy_system) =
          [watch_row ''1'' (Some (now + 1800000000)) True,
           watch_row ''2'' (Some (now + 3600000000)) True]"
    by (simp add: selected_rows_def busy_system_def select_where_def watch_row_def order_by_def
          now_def)
  then have busy: "eligible publish_fails_world busy_system \<noteq> []"
    and two: "eligible example_world busy_system =
          [watch_row ''1'' (Some (now + 1800000000)) True,
           watch_row ''2'' (Some (now + 3600000000)) True]"
    by (simp_all add: eligible_def publish_fails_world_def example_world_def timedelta_hours_def
          hours_ahead_default_def)
  have timeout: "fst (publish_renewal_messages publish_fails_world
                   (getenv publish_fails_world ''GCP_PROJECT_ID'')
                   (getenv publish_fails_world ''GCP_PUB_SUB_GMAIL_WATCH_RENEWAL_TOPIC_ID'')
                   (map (watch_dict publish_fails_world)
                      (fetchall (clock publish_fails_world 0 + timedelta_hours hours_ahead_default)
                         (gmail_watches busy_system)))
                   busy_system) = Inl (LibraryError ''Deadline Exceeded'')"
    using rows
    by (simp add: publish_renewal_messages_def Let_def fetchall_def publish_fails_world_def
          example_world_def timedelta_hours_def hours_ahead_default_def)
  have count: "str_nat (Suc (Suc 0)) = ''2''"
    by (simp add: str_nat.simps digit_def)
  have none: "connect_error example_world url = None" "select_error example_world = None"
    "publisher_error example_world = None"
    "connect_error publish_fails_world url = None" "select_error publish_fails_world = None"
    "connect_error query_fails_world url = None"
    "select_error query_fails_world = Some (LibraryError ''relation does not exist'')"
    "connect_error store_down_world url = Some (LibraryError ''connection refused'')"
    "publish_outcome example_world k tp m = Inr ''1''" for url k tp m
    by (simp_all add: example_world_def publish_fails_world_def query_fails_world_def
          store_down_world_def)
  have c1: "fst (watch_query_function example_world idle_system) =
     Inr \<lparr>statusCode = 200,
          body = JObj [(''success'', JBool True),
                       (''message'', JStr ''No expiring watches found''),
                       (''watches_processed'', JNum 0)]\<rparr>
   \<and> published (snd (watch_query_function example_world idle_system)) = published idle_system"
    using scanner_response [of example_world idle_system, THEN conjunct2, THEN conjunct1]
      configured(1) idle none
    by simp
  have c2: "fst (watch_query_function example_world busy_system) =
       Inr \<lparr>statusCode = 200,
            body = JObj [(''success'', JBool True),
                         (''message'',
                          JStr (''Published '' @ str_nat (length (eligible example_world busy_system))
                                @ '' renewal messages'')),
                         (''watches_processed'',
                          JNum (int (length (eligible example_world busy_system))))]\<rparr>
   \<and> length (published (snd (watch_query_function example_world busy_system))) =
       length (published busy_system) + length (eligible example_world busy_system)"
    using scanner_response [of example_world busy_system, THEN conjunct2, THEN conjunct2,
            THEN conjunct1]
      configured(1) none
    by (simp add: two)
  have c3: "fst (watch_query_function no_database_url_world example_system) =
       Inr \<lparr>statusCode = 500,
            body = JObj [(''success'', JBool False),
                         (''error'', JStr ''Missing required environment variables'')]\<rparr>"
    using scanner_response [of no_database_url_world example_system, THEN conjunct2,
            THEN conjunct2, THEN conjunct2, THEN conjunct1]
      configured(5)
    by simp
  have c4: "fst (watch_query_function store_down_world example_system) =
       Inr \<lparr>statusCode = 500,
            body = JObj [(''success'', JBool False),
                         (''error'', JStr (str_exn (LibraryError ''connection refused'')))]\<rparr>"
    using scanner_response [of store_down_world example_system
              "LibraryError ''connection refused''", THEN conjunct2,
            THEN conjunct2, THEN conjunct2, THEN conjunct2, THEN conjunct1]
      configured(2) none
    by simp
  have c5: "fst (watch_query_function query_fails_world example_system) =
       Inr \<lparr>statusCode = 500,
            body = JObj [(''success'', JBool False),
                         (''error'', JStr (str_exn (LibraryError ''relation does not exist'')))]\<rparr>"
    using scanner_response [of query_fails_world example_system
              "LibraryError ''relation does not exist''", THEN conjunct2,
            THEN conjunct2, THEN conjunct2, THEN conjunct2, THEN conjunct2, THEN conjunct1]
      configured(3) none
    by simp
  have c6: "fst (watch_query_function publish_fails_world busy_system) =
       Inr \<lparr>statusCode = 500,
            body = JObj [(''success'', JBool False),
                         (''error'', JStr (str_exn (LibraryError ''Deadline Exceeded'')))]\<rparr>"
    using scanner_response [of publish_fails_world busy_system
              "LibraryError ''Deadline Exceeded''", THEN conjunct2,
            THEN conjunct2, THEN conjunct2, THEN conjunct2, THEN conjunct2, THEN conjunct2]
      configured(4) none busy timeout
    by simp
  have unpublished: "published idle_system = []" "published busy_system = []"
    by (simp_all add: idle_system_def busy_system_def example_system_def)
  show ?thesis
    using c1 c2 c3 c4 c5 c6
    by (simp add: two count unpublished)
qed

subsection \<open>From the Scanner to the Worker\<close>

text \<open>
  Every message the Scanner publishes is a dict with exactly the keys \<^verbatim>\<open>user_id\<close>, \<^verbatim>\<open>email\<close>,
  \<^verbatim>\<open>watch_id\<close>, \<^verbatim>\<open>action\<close> and \<^verbatim>\<open>timestamp\<close>; the Worker's validation stops at
  \<^verbatim>\<open>account_id\<close> on each of them, so none leads to a provider call or to a change of the
  store, whatever the world and the state the Worker runs in.
\<close>

lemma publish_loop_messages:
  "(tp', m) \<in> set (published (snd (publish_loop w tp ws k s))) \<Longrightarrow>
   (tp', m) \<in> set (published s)
   \<or> (\<exists>d. m = JObj d \<and> map fst d = [''user_id'', ''email'', ''watch_id'', ''action'', ''timestamp''])"
proof (induction ws arbitrary: k s)
  case Nil
  then show ?case by simp
next
  case (Cons a ws)
  show ?case
  proof (cases "publish_outcome w k tp
                  (JObj [(''user_id'', user_id a), (''email'', email a), (''watch_id'', watch_id a),
                         (''action'', JStr ''renew_watch''),
                         (''timestamp'', JStr (isoformat w (clock w (Suc k))))])")
    case (Inl e)
    then show ?thesis using Cons.prems by (simp add: Let_def)
  next
    case (Inr message_id)
    then show ?thesis
      using Cons.prems Cons.IH
      by (fastforce simp add: Let_def logger_def)
  qed
qed

lemma scanner_messages:
  assumes "(tp, m) \<in> set (published (snd (watch_query_function w s)))"
  shows "(tp, m) \<in> set (published s)
   \<or> (\<exists>d. m = JObj d \<and> map fst d = [''user_id'', ''email'', ''watch_id'', ''action'', ''timestamp''])"
proof -
  define s0 where "s0 = logger INFO ''Gmail watch query function triggered by Cloud Scheduler'' [] s"
  define g where "g = get_expiring_watches w (getenv w ''DATABASE_URL'') hours_ahead_default s0"
  define p where "p = publish_renewal_messages w (getenv w ''GCP_PROJECT_ID'')
                 (getenv w ''GCP_PUB_SUB_GMAIL_WATCH_RENEWAL_TOPIC_ID'') (projr (fst g)) (snd g)"
  have g: "published (snd g) = published s"
    using get_expiring_watches_frame [of w "getenv w ''DATABASE_URL''" hours_ahead_default s0]
    by (simp add: g_def s0_def logger_def)
  have "published (snd (watch_query_function w s)) = published s
        \<or> published (snd (watch_query_function w s)) = published (snd p)"
    using g
    by (cases "get_expiring_watches w (getenv w ''DATABASE_URL'') hours_ahead_default s0";
        cases "publish_renewal_messages w (getenv w ''GCP_PROJECT_ID'')
                 (getenv w ''GCP_PUB_SUB_GMAIL_WATCH_RENEWAL_TOPIC_ID'') (projr (fst g)) (snd g)")
       (auto simp add: watch_query_function_def watch_query_function_try_def Let_def logger_def
          p_def g_def s0_def split: sum.splits if_splits)
  moreover have "published (snd p) = published (snd g)
     \<or> published (snd p) = published (snd (publish_loop w
           (publisher_topic_path (getenv w ''GCP_PROJECT_ID'')
              (getenv w ''GCP_PUB_SUB_GMAIL_WATCH_RENEWAL_TOPIC_ID'')) (projr (fst g)) 0 (snd g)))"
    by (simp add: p_def publish_renewal_messages_cases logger_def split: option.splits sum.splits)
  ultimately show ?thesis
    using assms g publish_loop_messages by metis
qed

lemma scanner_message_rejected:
  assumes "map fst d = [''user_id'', ''email'', ''watch_id'', ''action'', ''timestamp'']"
  shows "missing_field d required_fields = Some ''account_id''"
proof -
  have "map_of d ''account_id'' = None"
    using assms by (simp add: map_of_eq_None_iff flip: set_map)
  then show ?thesis
    by (simp add: required_fields_def)
qed

lemma scanner_message_never_renews:
  assumes "(tp, m) \<in> set (published (snd (watch_query_function w s)))"
    and "(tp, m) \<notin> set (published s)"
  shows "provider_calls (snd (renewal_worker_function w' (deliver m) s')) = provider_calls s'
       \<and> gmail_mailbox_watches (snd (renewal_worker_function w' (deliver m) s')) =
           gmail_mailbox_watches s'
       \<and> connections (snd (renewal_worker_function w' (deliver m) s')) = connections s'"
proof -
  have "(tp, m) \<in> set (published s)
        \<or> (\<exists>d. m = JObj d
                \<and> map fst d = [''user_id'', ''email'', ''watch_id'', ''action'', ''timestamp''])"
    using assms(1) by (rule scanner_messages)
  then have "\<exists>d. m = JObj d
                \<and> map fst d = [''user_id'', ''email'', ''watch_id'', ''action'', ''timestamp'']"
  proof
    assume "(tp, m) \<in> set (published s)"
    with assms(2) show ?thesis by (rule notE)
  qed
  then obtain d where m: "m = JObj d"
    and keys: "map fst d = [''user_id'', ''email'', ''watch_id'', ''action'', ''timestamp'']"
    by (elim exE conjE)
  have missing: "missing_field d required_fields = Some ''account_id''"
    using keys by (rule scanner_message_rejected)
  have data: "deliver m ''data'' = Some (Encodes (JObj d))"
    by (simp add: deliver_def m)
  have "renewal_worker_function_try w' (deliver m) s' =
          (Inl (ValueError (''Missing required field: '' @ ''account_id'')),
           logger INFO ''Processing Gmail watch renewal for user {} ({})''
             [dict_get d ''user_id'', dict_get d ''email''] s')"
    using data missing by (rule worker_try_missing [where event = "deliver m"])
  then show ?thesis
    by (simp add: renewal_worker_function_def logger_def)
qed

text \<open>
  Claim C1 does not hold of the code. In the scenario of the specification (one active
  watch of U1 that expires in 30 minutes, one active row of account A1, a provider that
  would answer with history id 999) the Scanner publishes one message; it has no
  \<^verbatim>\<open>account_id\<close>, \<^verbatim>\<open>access_token\<close> or \<^verbatim>\<open>refresh_token\<close>. Delivered to the Worker, it fails
  the validation: the Worker returns, having logged the error, without a provider call,
  and the row of A1 keeps its old history id and expiration.
\<close>

theorem scanner_message_fails_validation:
  "published (snd (watch_query_function example_world example_system)) =
     [(''projects/project/topics/gmail-watch-renewal'', JObj example_scanner_message)]
   \<and> missing_field example_scanner_message required_fields = Some ''account_id''
   \<and> fst (renewal_worker_function example_world (deliver (JObj example_scanner_message))
            (snd (watch_query_function example_world example_system))) = Inr ()
   \<and> provider_calls
        (snd (renewal_worker_function example_world (deliver (JObj example_scanner_message))
                (snd (watch_query_function example_world example_system)))) = []
   \<and> gmail_mailbox_watches
        (snd (renewal_worker_function example_world (deliver (JObj example_scanner_message))
                (snd (watch_query_function example_world example_system)))) =
       [example_mailbox_watch]
   \<and> last (logs
        (snd (renewal_worker_function example_world (deliver (JObj example_scanner_message))
                (snd (watch_query_function example_world example_system))))) =
       Log ERROR ''Renewal worker function failed: {}''
         [JStr ''Missing required field: account_id'']"
proof -
  have rows: "selected_rows (now + 7200000000) [example_watch] = [example_watch]"
    by (simp add: selected_rows_def select_where_def example_watch_def)
  have scan: "snd (watch_query_function example_world example_system) =
     example_system
       \<lparr>published := [(''projects/project/topics/gmail-watch-renewal'',
                       JObj example_scanner_message)],
        connections := 1, closed := 1,
        logs := [Log INFO ''Gmail watch query function triggered by Cloud Scheduler'' [],
                 Log INFO ''Found {} expiring watches'' [JNum 1],
                 Log INFO ''Published renewal message {} for user {}'' [JStr ''1'', JStr ''U1''],
                 Log INFO ''Published {} renewal messages'' [JNum 1]]\<rparr>"
    using rows
    by (simp add: watch_query_function_def watch_query_function_try_def get_expiring_watches_def
          publish_renewal_messages_def publisher_topic_path_def Let_def fetchall_def logger_def
          example_world_def example_environ_def getenv_def example_scanner_message_def
          timedelta_hours_def hours_ahead_default_def example_system_def example_watch_def)
  have missing: "missing_field example_scanner_message required_fields = Some ''account_id''"
    by (simp add: example_scanner_message_def required_fields_def)
  show ?thesis
    unfolding scan
    by (simp add: missing renewal_worker_function_def renewal_worker_function_try_def deliver_def
          logger_def example_system_def)
qed

end
